theory Spec2Isabelle
  imports Complex_Main "HOL-Library.Sublist"
begin

section \<open>Python strings\<close>

text \<open>
  A Python \<^verbatim>\<open>str\<close> is a sequence of Unicode code points and \<^verbatim>\<open>len\<close> counts code points,
  so a string is a list of code points here (a flag emoji is two of them). Literals of the
  source are ASCII and written \<open>u ''...''\<close>.
\<close>

type_synonym cp = nat
type_synonym ustr = "cp list"

definition u :: "string \<Rightarrow> ustr" where
  "u s = map of_char s"

text \<open>
  The character tables below are Python's for the code points up to 255. A code point
  above 255 is taken to be no digit and no letter and to have no other case, which is true
  of symbols and emoji; letters and digits of scripts outside Latin-1 are outside the
  model.
\<close>

definition isspace :: "cp \<Rightarrow> bool" where
  \<comment> \<open>the characters \<^verbatim>\<open>str.strip()\<close>, \<^verbatim>\<open>str.split()\<close> and \<^verbatim>\<open>\s\<close> take for whitespace\<close>
  "isspace c = ((9 \<le> c \<and> c \<le> 13) \<or> (28 \<le> c \<and> c \<le> 32) \<or> c = 133 \<or> c = 160 \<or> c = 5760
     \<or> (8192 \<le> c \<and> c \<le> 8202) \<or> c = 8232 \<or> c = 8233 \<or> c = 8239 \<or> c = 8287 \<or> c = 12288)"

definition ascii_digit :: "cp \<Rightarrow> bool" where
  \<comment> \<open>\<^verbatim>\<open>[0-9]\<close>, and \<^verbatim>\<open>\d\<close>\<close>
  "ascii_digit c = (48 \<le> c \<and> c \<le> 57)"

definition isdigit_cp :: "cp \<Rightarrow> bool" where
  \<comment> \<open>\<^verbatim>\<open>c.isdigit()\<close>: the ASCII digits and the superscripts 2, 3 and 1\<close>
  "isdigit_cp c = (ascii_digit c \<or> c = 178 \<or> c = 179 \<or> c = 185)"

definition isalnum_cp :: "cp \<Rightarrow> bool" where
  \<comment> \<open>\<^verbatim>\<open>c.isalnum()\<close>: letters, digits and the vulgar fractions\<close>
  "isalnum_cp c = (isdigit_cp c \<or> (65 \<le> c \<and> c \<le> 90) \<or> (97 \<le> c \<and> c \<le> 122)
     \<or> c = 170 \<or> c = 181 \<or> c = 186 \<or> (188 \<le> c \<and> c \<le> 190)
     \<or> (192 \<le> c \<and> c \<le> 214) \<or> (216 \<le> c \<and> c \<le> 246) \<or> (248 \<le> c \<and> c \<le> 255))"

definition lower_cp :: "cp \<Rightarrow> cp" where
  "lower_cp c = (if (65 \<le> c \<and> c \<le> 90) \<or> (192 \<le> c \<and> c \<le> 222 \<and> c \<noteq> 215) then c + 32 else c)"

definition lower :: "ustr \<Rightarrow> ustr" where
  \<comment> \<open>\<^verbatim>\<open>s.lower()\<close>\<close>
  "lower s = map lower_cp s"

definition isdigit :: "ustr \<Rightarrow> bool" where
  \<comment> \<open>\<^verbatim>\<open>s.isdigit()\<close>: false for the empty string\<close>
  "isdigit s = (s \<noteq> [] \<and> list_all isdigit_cp s)"

fun contains :: "ustr \<Rightarrow> ustr \<Rightarrow> bool" where
  \<comment> \<open>\<^verbatim>\<open>sub in s\<close>\<close>
  "contains sub [] = (sub = [])"
| "contains sub (c # cs) = (prefix sub (c # cs) \<or> contains sub cs)"

definition strip :: "ustr \<Rightarrow> ustr" where
  \<comment> \<open>\<^verbatim>\<open>s.strip()\<close>\<close>
  "strip s = rev (dropWhile isspace (rev (dropWhile isspace s)))"

fun split_from :: "ustr \<Rightarrow> ustr \<Rightarrow> ustr list" where
  \<comment> \<open>the words of a string, \<open>cur\<close> being the word read so far\<close>
  "split_from cur [] = (if cur = [] then [] else [cur])"
| "split_from cur (c # cs) =
     (if isspace c then (if cur = [] then split_from [] cs else cur # split_from [] cs)
      else split_from (cur @ [c]) cs)"

definition split :: "ustr \<Rightarrow> ustr list" where
  \<comment> \<open>\<^verbatim>\<open>s.split()\<close>\<close>
  "split s = split_from [] s"

fun join :: "ustr \<Rightarrow> ustr list \<Rightarrow> ustr" where
  \<comment> \<open>\<^verbatim>\<open>sep.join(xs)\<close>\<close>
  "join sep [] = []"
| "join sep [x] = x"
| "join sep (x # y # ys) = x @ sep @ join sep (y # ys)"

function replace :: "ustr \<Rightarrow> ustr \<Rightarrow> ustr \<Rightarrow> ustr" where
  \<comment> \<open>\<^verbatim>\<open>s.replace(old, new)\<close> for a non-empty \<open>old\<close>, as at every call\<close>
  "replace old new [] = []"
| "replace old new (c # cs) =
     (if old \<noteq> [] \<and> prefix old (c # cs)
      then new @ replace old new (drop (length old) (c # cs))
      else c # replace old new cs)"
  by pat_completeness auto
termination
  by (relation "measure (\<lambda>(old, new, s). length s)") auto

definition split_first :: "cp \<Rightarrow> ustr \<Rightarrow> ustr" where
  \<comment> \<open>\<^verbatim>\<open>s.split(c)[0]\<close>\<close>
  "split_first c s = takeWhile (\<lambda>x. x \<noteq> c) s"

definition split_last :: "cp \<Rightarrow> ustr \<Rightarrow> ustr" where
  \<comment> \<open>\<^verbatim>\<open>s.split(c)[-1]\<close>\<close>
  "split_last c s = rev (takeWhile (\<lambda>x. x \<noteq> c) (rev s))"

function str_nat :: "nat \<Rightarrow> ustr" where
  \<comment> \<open>\<^verbatim>\<open>str(n)\<close>, the decimal numeral of a natural number\<close>
  "str_nat n = (if n < 10 then [48 + n] else str_nat (n div 10) @ [48 + n mod 10])"
  by pat_completeness auto
termination
  by (relation "measure (\<lambda>n. n)") auto

subsection \<open>Numerals\<close>

definition digits_value :: "ustr \<Rightarrow> nat" where
  \<comment> \<open>the number a string of ASCII digits denotes\<close>
  "digits_value ds = foldl (\<lambda>a d. 10 * a + (d - 48)) 0 ds"

definition py_int :: "ustr \<Rightarrow> nat option" where
  \<comment> \<open>\<^verbatim>\<open>int(s)\<close> for an \<open>s\<close> with \<^verbatim>\<open>s.isdigit()\<close>: \<^verbatim>\<open>ValueError\<close> (\<open>None\<close>) when a
      superscript digit occurs; the bound that recent Python versions put on the number
      of digits (4300 by default) is left out\<close>
  "py_int s = (if s \<noteq> [] \<and> list_all ascii_digit s then Some (digits_value s) else None)"

text \<open>
  \<^verbatim>\<open>float(s)\<close> for the strings the regular expressions of the source hand to it, which
  hold nothing but ASCII digits, dots and a leading minus sign: the value of the numeral,
  or \<open>None\<close> for \<^verbatim>\<open>ValueError\<close> (no digit at all, or a second dot). The caller rounds the
  value with \<open>fl\<close>.
\<close>

definition py_float :: "ustr \<Rightarrow> rat option" where
  "py_float s =
     (let negative = (s \<noteq> [] \<and> hd s = 45);
          r = (if negative then tl s else s);
          ip = takeWhile ascii_digit r;
          r2 = dropWhile ascii_digit r;
          dot = (r2 \<noteq> [] \<and> hd r2 = 46);
          fp = (if dot then takeWhile ascii_digit (tl r2) else []);
          r3 = (if dot then dropWhile ascii_digit (tl r2) else r2);
          v = of_nat (digits_value ip) + of_nat (digits_value fp) / 10 ^ length fp
      in if r3 = [] \<and> (ip \<noteq> [] \<or> fp \<noteq> []) then Some (if negative then - v else v)
         else None)"

subsection \<open>Regular expressions\<close>

text \<open>
  The regular expressions of the source are sequences of character classes, each taken
  once, optionally (\<^verbatim>\<open>?\<close>), any number of times (\<^verbatim>\<open>*\<close>) or at least once (\<^verbatim>\<open>+\<close>). \<open>re_match\<close>
  is the backtracking matcher of \<^verbatim>\<open>re\<close> anchored at the start of the string: every
  quantifier is greedy and gives characters back one at a time when the rest of the
  pattern fails. It returns the piece of the string each item has taken.
\<close>

datatype quant = One | Opt | Star | Plus

type_synonym item = "(cp \<Rightarrow> bool) \<times> quant"

fun re_match :: "item list \<Rightarrow> ustr \<Rightarrow> ustr list option" where
  "re_match [] s = Some []"
| "re_match ((cls, One) # its) [] = None"
| "re_match ((cls, One) # its) (c # cs) =
     (if cls c then map_option ((#) [c]) (re_match its cs) else None)"
| "re_match ((cls, Opt) # its) [] = map_option ((#) []) (re_match its [])"
| "re_match ((cls, Opt) # its) (c # cs) =
     (if cls c
      then (case re_match its cs of
              Some ps \<Rightarrow> Some ([c] # ps)
            | None \<Rightarrow> map_option ((#) []) (re_match its (c # cs)))
      else map_option ((#) []) (re_match its (c # cs)))"
| "re_match ((cls, Star) # its) [] = map_option ((#) []) (re_match its [])"
| "re_match ((cls, Star) # its) (c # cs) =
     (if cls c
      then (case re_match ((cls, Star) # its) cs of
              Some (p # ps) \<Rightarrow> Some ((c # p) # ps)
            | _ \<Rightarrow> map_option ((#) []) (re_match its (c # cs)))
      else map_option ((#) []) (re_match its (c # cs)))"
| "re_match ((cls, Plus) # its) [] = None"
| "re_match ((cls, Plus) # its) (c # cs) =
     (if cls c
      then (case re_match ((cls, Star) # its) cs of
              Some (p # ps) \<Rightarrow> Some ((c # p) # ps)
            | _ \<Rightarrow> None)
      else None)"

fun re_search :: "item list \<Rightarrow> ustr \<Rightarrow> ustr list option" where
  \<comment> \<open>\<^verbatim>\<open>re.search\<close>: the match at the leftmost position that has one\<close>
  "re_search its [] = re_match its []"
| "re_search its (c # cs) =
     (case re_match its (c # cs) of Some ps \<Rightarrow> Some ps | None \<Rightarrow> re_search its cs)"

function re_finditer :: "item list \<Rightarrow> ustr \<Rightarrow> ustr list list" where
  \<comment> \<open>\<^verbatim>\<open>re.finditer\<close>: the matches from left to right, each search starting where the
      previous match ended (one character further after an empty match)\<close>
  "re_finditer its [] = (case re_match its [] of Some ps \<Rightarrow> [ps] | None \<Rightarrow> [])"
| "re_finditer its (c # cs) =
     (case re_match its (c # cs) of
        None \<Rightarrow> re_finditer its cs
      | Some ps \<Rightarrow>
          (if concat ps = [] then ps # re_finditer its cs
           else ps # re_finditer its (drop (length (concat ps)) (c # cs))))"
  by pat_completeness auto
termination
  by (relation "measure (\<lambda>(its, s). length s)") auto

definition lit :: "char \<Rightarrow> cp \<Rightarrow> bool" where
  \<comment> \<open>the class of one literal character\<close>
  "lit x c = (c = of_char x)"

definition lit_i :: "char \<Rightarrow> cp \<Rightarrow> bool" where
  \<comment> \<open>a literal character under \<^verbatim>\<open>re.IGNORECASE\<close>\<close>
  "lit_i x c = (lower_cp c = lower_cp (of_char x))"

definition word :: "string \<Rightarrow> item list" where
  \<comment> \<open>a literal string\<close>
  "word s = map (\<lambda>x. (lit x, One)) s"

definition word_i :: "string \<Rightarrow> item list" where
  \<comment> \<open>a literal string under \<^verbatim>\<open>re.IGNORECASE\<close>\<close>
  "word_i s = map (\<lambda>x. (lit_i x, One)) s"

definition group :: "nat \<Rightarrow> nat \<Rightarrow> ustr list \<Rightarrow> ustr" where
  \<comment> \<open>the text of a group that spans the \<open>n\<close> items from item \<open>i\<close> on\<close>
  "group i n ps = concat (take n (drop i ps))"

section \<open>Rate-limited fetch client: \<^verbatim>\<open>HuggingFaceScraper.scrape_model\<close>\<close>

text \<open>
  What \<^verbatim>\<open>await client.get(url, headers=...)\<close> can do: return a response, raise an
  \<^verbatim>\<open>httpx.HTTPError\<close> (timeout, connection failure), or raise something else. Of a
  response the code reads \<^verbatim>\<open>status_code\<close>, \<^verbatim>\<open>text\<close>, and calls \<^verbatim>\<open>raise_for_status()\<close>;
  \<open>body\<close> is \<^verbatim>\<open>text\<close>, and \<open>raises\<close> says whether that call raises \<^verbatim>\<open>HTTPStatusError\<close> for this response.
\<close>

record response =
  status_code :: nat
  raises :: bool
  body :: ustr

datatype http_outcome = Got response | Raised_HTTPError | Raised_Exception

text \<open>
  The client instance: \<^verbatim>\<open>self._cache\<close> (a dict from model id to the parsed record or
  \<^verbatim>\<open>None\<close>), and the trace of the URLs requested so far, which the source does not keep
  and which is here to count network requests.
\<close>

record 'r client =
  cache :: "ustr \<rightharpoonup> 'r option"
  requests :: "ustr list"

definition base_url :: ustr where
  "base_url = u ''https://huggingface.co''"

definition model_url :: "ustr \<Rightarrow> ustr" where
  "model_url model_id = base_url @ u ''/'' @ model_id"

text \<open>
  The network is an oracle \<open>net n url\<close>: the outcome of the request for \<open>url\<close> issued when
  \<open>n\<close> requests were issued before, so the same URL may be answered differently over time.
  \<open>parse\<close> stands for \<^verbatim>\<open>self._parse_model_page\<close>, which is called inside the \<^verbatim>\<open>try\<close>
  block before the result is stored: it gives \<open>None\<close> when the call raises (the parser
  rejects the markup), and the exception is then caught by \<^verbatim>\<open>except Exception\<close> like one
  raised by the request. The function returns the value returned to the caller (\<open>None\<close>
  is Python's \<^verbatim>\<open>None\<close>) and the client afterwards. The two sleeps change no state and
  are left out.
\<close>

definition scrape_model ::
  "(nat \<Rightarrow> ustr \<Rightarrow> http_outcome) \<Rightarrow> (ustr \<Rightarrow> ustr \<Rightarrow> 'r option) \<Rightarrow> 'r client \<Rightarrow> ustr
     \<Rightarrow> 'r option \<times> 'r client" where
  "scrape_model net parse c model_id =
     (case cache c model_id of
        Some r \<Rightarrow> (r, c)
      | None \<Rightarrow>
          (let url = model_url model_id;
               c1 = c\<lparr>requests := requests c @ [url]\<rparr>
           in case net (length (requests c)) url of
                Got resp \<Rightarrow>
                  if status_code resp = 404
                  then (None, c1\<lparr>cache := (cache c1)(model_id \<mapsto> None)\<rparr>)
                  else if status_code resp = 429 then (None, c1)
                  else if raises resp then (None, c1)
                  else (case parse (body resp) model_id of
                          None \<Rightarrow> (None, c1)
                        | Some result \<Rightarrow>
                            (Some result, c1\<lparr>cache := (cache c1)(model_id \<mapsto> Some result)\<rparr>))
              | Raised_HTTPError \<Rightarrow> (None, c1)
              | Raised_Exception \<Rightarrow> (None, c1)))"

text \<open>
  The outcomes after which \<^verbatim>\<open>scrape_model\<close> stores an entry in the cache: a 404, and a
  response that passes \<^verbatim>\<open>raise_for_status\<close> and whose page is parsed without an exception.
\<close>

fun stored :: "(ustr \<Rightarrow> ustr \<Rightarrow> 'r option) \<Rightarrow> ustr \<Rightarrow> http_outcome \<Rightarrow> bool" where
  "stored parse model_id (Got resp) =
     (status_code resp = 404
      \<or> (status_code resp \<noteq> 429 \<and> \<not> raises resp \<and> parse (body resp) model_id \<noteq> None))"
| "stored parse model_id Raised_HTTPError = False"
| "stored parse model_id Raised_Exception = False"

definition empty_client :: "'r client" where
  "empty_client = \<lparr>cache = Map.empty, requests = []\<rparr>"

definition always :: "http_outcome \<Rightarrow> nat \<Rightarrow> ustr \<Rightarrow> http_outcome" where
  "always out n url = out"

definition rate_limited :: response where
  "rate_limited = \<lparr>status_code = 429, raises = True, body = []\<rparr>"

definition not_found :: response where
  "not_found = \<lparr>status_code = 404, raises = True, body = []\<rparr>"

definition ok_response :: "ustr \<Rightarrow> response" where
  "ok_response txt = \<lparr>status_code = 200, raises = False, body = txt\<rparr>"

section \<open>Records\<close>

text \<open>
  A benchmark entry is a dict with the three keys \<^verbatim>\<open>name\<close>, \<^verbatim>\<open>score\<close>, \<^verbatim>\<open>category\<close>.
  A float is a value of an abstract type \<open>'f\<close>: every float of the program is made by
  \<^verbatim>\<open>float(s)\<close> from a decimal numeral, and the parameter \<open>fl :: rat \<Rightarrow> 'f\<close> carried by
  the functions below is the rounding of the numeral's value to the float that Python's
  \<^verbatim>\<open>==\<close> compares (so \<open>fl 0\<close> is both \<^verbatim>\<open>0.0\<close> and \<^verbatim>\<open>-0.0\<close>). Nothing is assumed of \<open>fl\<close>.
\<close>

datatype 'f benchmark = Benchmark (name: ustr) (score: 'f) (category: ustr)

text \<open>
  The model records are Python dicts with string keys. Their values are \<^verbatim>\<open>None\<close>,
  booleans, ints, floats, strings and benchmark lists.
\<close>

datatype 'f val = VNone | VBool bool | VInt int | VFloat 'f | VStr ustr
  | VList "'f benchmark list"

type_synonym 'f pydict = "string \<rightharpoonup> 'f val"

text \<open>
  The exceptions of the model, and \<open>Interrupted\<close> for a write that does not run to its
  end.
\<close>

datatype error = TypeError | ValueError | AttributeError | BrowserError | Interrupted

definition pyget :: "'f pydict \<Rightarrow> string \<Rightarrow> 'f val" where
  \<comment> \<open>\<^verbatim>\<open>d.get(k)\<close>\<close>
  "pyget d k = (case d k of None \<Rightarrow> VNone | Some v \<Rightarrow> v)"

fun truthy :: "(rat \<Rightarrow> 'f) \<Rightarrow> 'f val \<Rightarrow> bool" where
  \<comment> \<open>the truth value Python gives a value in a condition\<close>
  "truthy fl VNone = False"
| "truthy fl (VBool b) = b"
| "truthy fl (VInt i) = (i \<noteq> 0)"
| "truthy fl (VFloat x) = (x \<noteq> fl 0)"
| "truthy fl (VStr s) = (s \<noteq> [])"
| "truthy fl (VList bs) = (bs \<noteq> [])"

definition get_model_id :: "'f pydict \<Rightarrow> ustr" where
  \<comment> \<open>\<^verbatim>\<open>model.get('model_id', '')\<close>. Both scrapers store a \<^verbatim>\<open>str\<close> under \<^verbatim>\<open>model_id\<close>;
      a record holding another kind of value there is read as one without identifier.\<close>
  "get_model_id m = (case m ''model_id'' of Some (VStr s) \<Rightarrow> s | _ \<Rightarrow> [])"

section \<open>\<^verbatim>\<open>HuggingFaceScraper.scrape_models_batch\<close>\<close>

fun unique_ids :: "'a list \<Rightarrow> 'a list" where
  \<comment> \<open>\<^verbatim>\<open>list(dict.fromkeys(model_ids))\<close>: first occurrences, in order\<close>
  "unique_ids [] = []"
| "unique_ids (x # xs) = x # removeAll x (unique_ids xs)"

function batches :: "nat \<Rightarrow> 'a list \<Rightarrow> 'a list list" where
  \<comment> \<open>the slices \<^verbatim>\<open>unique_ids[i:i + max_concurrent]\<close> for \<^verbatim>\<open>i in range(0, len(unique_ids), max_concurrent)\<close>;
      \<^verbatim>\<open>range\<close> raises for a step of 0, the callers pass 3\<close>
  "batches n xs = (if n = 0 \<or> xs = [] then [] else take n xs # batches n (drop n xs))"
  by pat_completeness auto
termination
  by (relation "measure (\<lambda>(n, xs). length xs)") auto

text \<open>
  \<^verbatim>\<open>asyncio.gather\<close> over one batch. The identifiers of a batch are distinct, so each task
  reads and writes its own cache key, and the tasks issue their requests in the order in
  which they were started: the batch is run one identifier after the other.
\<close>

fun gather :: "(nat \<Rightarrow> ustr \<Rightarrow> http_outcome) \<Rightarrow> (ustr \<Rightarrow> ustr \<Rightarrow> 'r option) \<Rightarrow> 'r client \<Rightarrow> ustr list
     \<Rightarrow> 'r option list \<times> 'r client" where
  "gather net parse c [] = ([], c)"
| "gather net parse c (model_id # rest) =
     (case scrape_model net parse c model_id of
        (r, c1) \<Rightarrow> (case gather net parse c1 rest of (rs, c2) \<Rightarrow> (r # rs, c2)))"

fun run_batches :: "(nat \<Rightarrow> ustr \<Rightarrow> http_outcome) \<Rightarrow> (ustr \<Rightarrow> ustr \<Rightarrow> 'r option) \<Rightarrow> 'r client
     \<Rightarrow> ustr list list \<Rightarrow> 'r list \<times> 'r client" where
  "run_batches net parse c [] = ([], c)"
| "run_batches net parse c (batch # rest) =
     (case gather net parse c batch of
        (batch_results, c1) \<Rightarrow>
          (case run_batches net parse c1 rest of
             (results, c2) \<Rightarrow> (List.map_filter (\<lambda>r. r) batch_results @ results, c2)))"

definition scrape_models_batch :: "(nat \<Rightarrow> ustr \<Rightarrow> http_outcome) \<Rightarrow> (ustr \<Rightarrow> ustr \<Rightarrow> 'r option)
     \<Rightarrow> 'r client \<Rightarrow> ustr list \<Rightarrow> nat \<Rightarrow> 'r list \<times> 'r client" where
  "scrape_models_batch net parse c model_ids max_concurrent =
     run_batches net parse c (batches max_concurrent (unique_ids model_ids))"

section \<open>Fusion: \<^verbatim>\<open>LLMStatsOrchestrator._enrich_with_huggingface\<close>\<close>

definition hf_data_map :: "'f pydict list \<Rightarrow> (ustr \<rightharpoonup> 'f pydict)" where
  \<comment> \<open>\<^verbatim>\<open>{m['model_id']: m for m in hf_models if m.get('model_id')}\<close>: a later record
      replaces an earlier one with the same identifier\<close>
  "hf_data_map hf_models =
     foldl (\<lambda>acc m. if get_model_id m \<noteq> [] then acc(get_model_id m \<mapsto> m) else acc)
       Map.empty hf_models"

definition merge_model :: "(rat \<Rightarrow> 'f) \<Rightarrow> (ustr \<rightharpoonup> 'f pydict) \<Rightarrow> 'f pydict \<Rightarrow> 'f pydict" where
  \<comment> \<open>the body of the loop over \<^verbatim>\<open>models\<close>\<close>
  "merge_model fl hmap model =
     (let model_id = get_model_id model
      in case hmap model_id of
           Some hf_data \<Rightarrow>
             (let merged_model = model(
                    ''hf_license'' \<mapsto> pyget hf_data ''license'',
                    ''hf_parameters'' \<mapsto> pyget hf_data ''parameters'',
                    ''hf_context_window'' \<mapsto> pyget hf_data ''context_window'',
                    ''hf_downloads'' \<mapsto> pyget hf_data ''downloads'',
                    ''hf_likes'' \<mapsto> pyget hf_data ''likes'',
                    ''hf_created_at'' \<mapsto> pyget hf_data ''created_at'',
                    ''hf_last_modified'' \<mapsto> pyget hf_data ''last_modified'',
                    ''hf_url'' \<mapsto> VStr (model_url model_id))
              in if truthy fl (pyget hf_data ''benchmarks'')
                 then merged_model(''hf_benchmarks'' \<mapsto> pyget hf_data ''benchmarks'')
                 else merged_model)
         | None \<Rightarrow> model(''hf_url'' \<mapsto> VStr (model_url model_id)))"

definition enrich_with_huggingface :: "(rat \<Rightarrow> 'f) \<Rightarrow> (nat \<Rightarrow> ustr \<Rightarrow> http_outcome)
     \<Rightarrow> (ustr \<Rightarrow> ustr \<Rightarrow> 'f pydict option) \<Rightarrow> 'f pydict client \<Rightarrow> 'f pydict list
     \<Rightarrow> 'f pydict list \<times> 'f pydict client" where
  "enrich_with_huggingface fl net parse c models =
     (let model_ids = filter (\<lambda>s. s \<noteq> []) (map get_model_id models)
      in case scrape_models_batch net parse c model_ids 3 of
           (hf_models, c1) \<Rightarrow> (map (merge_model fl (hf_data_map hf_models)) models, c1))"

definition hf_keys :: "string list" where
  \<comment> \<open>the keys \<^verbatim>\<open>_enrich_with_huggingface\<close> writes\<close>
  "hf_keys = [''hf_license'', ''hf_parameters'', ''hf_context_window'', ''hf_downloads'',
     ''hf_likes'', ''hf_created_at'', ''hf_last_modified'', ''hf_url'', ''hf_benchmarks'']"

section \<open>Snapshot and persistence: \<^verbatim>\<open>_save_data\<close>\<close>

text \<open>\<^verbatim>\<open>output_data\<close>, the object that is serialized.\<close>

record 'f snapshot =
  models :: "'f pydict list"
  total_count :: nat
  last_updated :: ustr
  metadata :: "'f pydict"

fun len_benchmarks :: "'f pydict \<Rightarrow> nat option" where
  \<comment> \<open>\<^verbatim>\<open>len(m.get('benchmarks', []))\<close>; \<^verbatim>\<open>len\<close> raises \<^verbatim>\<open>TypeError\<close> on a value without length\<close>
  "len_benchmarks m =
     (case m ''benchmarks'' of
        None \<Rightarrow> Some 0
      | Some (VList bs) \<Rightarrow> Some (length bs)
      | Some (VStr s) \<Rightarrow> Some (length s)
      | Some _ \<Rightarrow> None)"

fun total_benchmarks :: "'f pydict list \<Rightarrow> nat option" where
  \<comment> \<open>\<^verbatim>\<open>sum(len(m.get('benchmarks', [])) for m in models)\<close>\<close>
  "total_benchmarks [] = Some 0"
| "total_benchmarks (m # ms) =
     (case len_benchmarks m of
        None \<Rightarrow> None
      | Some n \<Rightarrow> (case total_benchmarks ms of None \<Rightarrow> None | Some k \<Rightarrow> Some (n + k)))"

definition hf_enriched :: "(rat \<Rightarrow> 'f) \<Rightarrow> 'f pydict list \<Rightarrow> nat" where
  \<comment> \<open>\<^verbatim>\<open>sum(1 for m in models if m.get('hf_license') or m.get('hf_benchmarks'))\<close>\<close>
  "hf_enriched fl ms =
     length (filter (\<lambda>m. truthy fl (pyget m ''hf_license'') \<or> truthy fl (pyget m ''hf_benchmarks'')) ms)"

text \<open>
  \<^verbatim>\<open>LLMStatsOrchestrator._save_data\<close> up to the serialization; \<open>now\<close> is
  \<^verbatim>\<open>datetime.now().isoformat()\<close>.
\<close>

definition llmstats_output_data :: "(rat \<Rightarrow> 'f) \<Rightarrow> ustr \<Rightarrow> 'f pydict list \<Rightarrow> error + 'f snapshot" where
  "llmstats_output_data fl now ms =
     (case total_benchmarks ms of
        None \<Rightarrow> Inl TypeError
      | Some tb \<Rightarrow>
          Inr \<lparr>models = ms,
               total_count = length ms,
               last_updated = now,
               metadata = [''primary_source'' \<mapsto> VStr (u ''llm-stats.com''),
                           ''secondary_source'' \<mapsto> VStr (u ''HuggingFace''),
                           ''hf_enriched_count'' \<mapsto> VInt (int (hf_enriched fl ms)),
                           ''total_benchmarks'' \<mapsto> VInt (int tb),
                           ''open_source_only'' \<mapsto> VBool True]\<rparr>)"

text \<open>\<^verbatim>\<open>SimpleOrchestrator._save_data\<close> up to the serialization.\<close>

definition simple_output_data :: "ustr \<Rightarrow> 'f pydict list \<Rightarrow> error + 'f snapshot" where
  "simple_output_data now ms =
     Inr \<lparr>models = ms,
          total_count = length ms,
          last_updated = now,
          metadata = [''source'' \<mapsto> VStr (u ''HuggingFace''),
                      ''open_source_only'' \<mapsto> VBool True]\<rparr>"

text \<open>
  The files: a map from paths to contents. \<^verbatim>\<open>open(self.output_file, 'w')\<close> creates the
  file or empties the one that is there; \<^verbatim>\<open>json.dump(output_data, f, ...)\<close> then writes the
  serialized text to it piece by piece. \<^verbatim>\<open>parent.mkdir(parents=True, exist_ok=True)\<close>
  changes no file.
\<close>

type_synonym files = "ustr \<rightharpoonup> ustr"

datatype file_op = Open_w ustr | Write ustr ustr

fun apply_op :: "files \<Rightarrow> file_op \<Rightarrow> files" where
  "apply_op fs (Open_w path) = fs(path \<mapsto> [])"
| "apply_op fs (Write path s) = fs(path \<mapsto> (case fs path of None \<Rightarrow> s | Some old \<Rightarrow> old @ s))"

definition save_ops :: "ustr \<Rightarrow> ustr list \<Rightarrow> file_op list" where
  "save_ops output_file chunks = Open_w output_file # map (Write output_file) chunks"

text \<open>
  Both \<^verbatim>\<open>_save_data\<close> methods, from \<^verbatim>\<open>output_data\<close> on. \<open>encode\<close> is the JSON encoder: the
  pieces \<^verbatim>\<open>json.dump\<close> writes, in order. \<open>fault\<close> is the environment: \<open>None\<close> when the
  write runs to its end, \<open>Some k\<close> when it is interrupted (the process is killed, or
  the operating system refuses an operation and \<^verbatim>\<open>OSError\<close> is raised) after \<open>k\<close>
  file operations have taken effect. The result is the exception that leaves the method,
  if any, and the files afterwards.
\<close>

definition write_snapshot :: "('f snapshot \<Rightarrow> ustr list) \<Rightarrow> nat option \<Rightarrow> ustr
     \<Rightarrow> error + 'f snapshot \<Rightarrow> files \<Rightarrow> error option \<times> files" where
  "write_snapshot encode fault output_file output_data fs =
     (case output_data of
        Inl e \<Rightarrow> (Some e, fs)
      | Inr out \<Rightarrow>
          (case fault of
             None \<Rightarrow> (None, foldl apply_op fs (save_ops output_file (encode out)))
           | Some k \<Rightarrow>
               (Some Interrupted, foldl apply_op fs (take k (save_ops output_file (encode out))))))"

definition llmstats_save_data :: "(rat \<Rightarrow> 'f) \<Rightarrow> ustr \<Rightarrow> ('f snapshot \<Rightarrow> ustr list) \<Rightarrow> nat option
     \<Rightarrow> ustr \<Rightarrow> 'f pydict list \<Rightarrow> files \<Rightarrow> error option \<times> files" where
  "llmstats_save_data fl now encode fault output_file ms fs =
     write_snapshot encode fault output_file (llmstats_output_data fl now ms) fs"

definition simple_save_data :: "ustr \<Rightarrow> ('f snapshot \<Rightarrow> ustr list) \<Rightarrow> nat option
     \<Rightarrow> ustr \<Rightarrow> 'f pydict list \<Rightarrow> files \<Rightarrow> error option \<times> files" where
  "simple_save_data now encode fault output_file ms fs =
     write_snapshot encode fault output_file (simple_output_data now ms) fs"

section \<open>Example records\<close>

definition primary_example :: "rat pydict" where
  "primary_example = [''model_id'' \<mapsto> VStr (u ''acme/foo-7b''),
     ''benchmarks'' \<mapsto> VList [Benchmark (u ''MMLU'') (171 / 2) (u ''knowledge'')]]"

definition secondary_example :: "rat pydict" where
  "secondary_example = [''model_id'' \<mapsto> VStr (u ''acme/foo-7b''),
     ''license'' \<mapsto> VStr (u ''apache-2.0''),
     ''benchmarks'' \<mapsto> VList [Benchmark (u ''GSM8K'') 90 (u ''reasoning'')]]"

section \<open>Rendered-table collector: \<^verbatim>\<open>LLMStatsScraper\<close>\<close>

definition llmstats_categorize_benchmark :: "ustr \<Rightarrow> ustr" where
  \<comment> \<open>\<^verbatim>\<open>LLMStatsScraper._categorize_benchmark\<close>\<close>
  "llmstats_categorize_benchmark nm =
     (let name_lower = lower nm
      in if list_ex (\<lambda>x. contains (u x) name_lower) [''code'', ''human'', ''swe'', ''live'']
         then u ''coding''
         else if list_ex (\<lambda>x. contains (u x) name_lower) [''math'', ''gsm'', ''aime'', ''gpqa'']
         then u ''reasoning''
         else if list_ex (\<lambda>x. contains (u x) name_lower)
                   [''mmlu'', ''arc'', ''truthful'', ''winogrande'']
         then u ''knowledge''
         else u ''general'')"

definition score_re :: "item list" where
  \<comment> \<open>\<^verbatim>\<open>-?\d+\.?\d*\<close>\<close>
  "score_re = [(lit CHR ''-'', Opt), (ascii_digit, Plus), (lit CHR ''.'', Opt), (ascii_digit, Star)]"

definition extract_score :: "(rat \<Rightarrow> 'f) \<Rightarrow> ustr \<Rightarrow> 'f option" where
  \<comment> \<open>\<^verbatim>\<open>_extract_score\<close>: \<^verbatim>\<open>float\<close> of the first match of \<^verbatim>\<open>re.findall\<close>\<close>
  "extract_score fl txt =
     (case re_search score_re txt of
        None \<Rightarrow> None
      | Some ps \<Rightarrow> map_option fl (py_float (concat ps)))"

definition price_re :: "item list" where
  \<comment> \<open>\<^verbatim>\<open>\$?(\d+\.?\d*)\<close>; the group is the last three items\<close>
  "price_re = [(lit CHR ''$'', Opt), (ascii_digit, Plus), (lit CHR ''.'', Opt), (ascii_digit, Star)]"

definition extract_price :: "(rat \<Rightarrow> 'f) \<Rightarrow> ustr \<Rightarrow> 'f option" where
  \<comment> \<open>\<^verbatim>\<open>_extract_price\<close>\<close>
  "extract_price fl txt =
     (case re_search price_re txt of
        None \<Rightarrow> None
      | Some ps \<Rightarrow> map_option fl (py_float (group 1 3 ps)))"

definition benchmark_names :: "ustr list" where
  "benchmark_names = map u [''MMLU'', ''Arc-Challenge'', ''HellaSwag'', ''TruthfulQA'',
     ''Winogrande'', ''GSM8K'', ''GPQA'', ''AIME'', ''MATH'', ''HumanEval'']"

definition benchmark_name :: "nat \<Rightarrow> ustr" where
  \<comment> \<open>the name given to the score with index \<open>score_index\<close>\<close>
  "benchmark_name score_index =
     (if score_index < length benchmark_names then benchmark_names ! score_index
      else u ''Benchmark_'' @ str_nat (score_index + 1))"

fun parse_benchmarks_from :: "(rat \<Rightarrow> 'f) \<Rightarrow> nat \<Rightarrow> ustr list \<Rightarrow> 'f benchmark list" where
  \<comment> \<open>the loop of \<^verbatim>\<open>_parse_benchmarks_from_cells\<close>, from \<open>score_index\<close> on\<close>
  "parse_benchmarks_from fl score_index [] = []"
| "parse_benchmarks_from fl score_index (cell # cells) =
     (if contains (u ''%'') cell
      then (case extract_score fl cell of
              Some sc \<Rightarrow>
                Benchmark (benchmark_name score_index) sc
                    (llmstats_categorize_benchmark (benchmark_name score_index))
                  # parse_benchmarks_from fl (score_index + 1) cells
            | None \<Rightarrow> parse_benchmarks_from fl score_index cells)
      else parse_benchmarks_from fl score_index cells)"

definition parse_benchmarks_from_cells :: "(rat \<Rightarrow> 'f) \<Rightarrow> ustr list \<Rightarrow> 'f benchmark list" where
  "parse_benchmarks_from_cells fl cells = parse_benchmarks_from fl 0 cells"

fun extract_parameters_from_cells :: "ustr list \<Rightarrow> error + ustr option" where
  \<comment> \<open>\<^verbatim>\<open>_extract_parameters_from_cells\<close>; \<^verbatim>\<open>int(cell)\<close> raises \<^verbatim>\<open>ValueError\<close> on a cell of
      digits with a superscript digit among them\<close>
  "extract_parameters_from_cells [] = Inr None"
| "extract_parameters_from_cells (cell # cells) =
     (if isdigit cell
      then (case py_int cell of
              None \<Rightarrow> Inl ValueError
            | Some num \<Rightarrow>
                if 1 \<le> num \<and> num \<le> 1000 then Inr (Some (str_nat num @ u ''B''))
                else extract_parameters_from_cells cells)
      else extract_parameters_from_cells cells)"

definition org_mapping :: "(string \<times> string) list" where
  \<comment> \<open>the dict \<^verbatim>\<open>org_mapping\<close>, in the order in which \<^verbatim>\<open>items()\<close> goes through it\<close>
  "org_mapping = [(''glm'', ''THUDM''), (''kimi'', ''MoonshotAI''), (''mimo'', ''AIDC-AI''),
     (''qwen'', ''Qwen''), (''yi'', ''01-ai''), (''deepseek'', ''deepseek-ai''),
     (''llama'', ''meta-llama''), (''mistral'', ''mistralai''), (''mixtral'', ''mistralai''),
     (''gemma'', ''google''), (''gemini'', ''google''), (''phi'', ''microsoft''),
     (''gpt'', ''openai''), (''claude'', ''anthropic''), (''nemotron'', ''nvidia''),
     (''hermes'', ''NousResearch''), (''nous'', ''NousResearch''), (''solar'', ''upstage''),
     (''commandr'', ''CohereForAI''), (''aya'', ''CohereForAI'')]"

definition extract_model_id :: "ustr \<Rightarrow> ustr" where
  \<comment> \<open>\<^verbatim>\<open>_extract_model_id\<close>\<close>
  "extract_model_id model_name =
     (if contains (u ''/'') model_name then model_name
      else (case find (\<lambda>(pattern, org). contains (u pattern) (lower model_name)) org_mapping of
              Some (pattern, org) \<Rightarrow> u org @ u ''/'' @ model_name
            | None \<Rightarrow> u ''unknown/'' @ model_name))"

definition clean_cell :: "ustr \<Rightarrow> ustr" where
  \<comment> \<open>the two assignments to \<^verbatim>\<open>cleaned\<close>\<close>
  "clean_cell txt =
     (let cleaned = replace (u [CHR 0x09]) (u '' '') (replace (u [CHR 0x0A]) (u '' '') (strip txt))
      in join (u '' '') (split cleaned))"

fun find_model_name :: "nat \<Rightarrow> ustr list \<Rightarrow> (ustr \<times> nat) option" where
  \<comment> \<open>the loop that looks for the model name, \<open>i\<close> being the index of the first cell
      of the list; it ends at the first cell that qualifies\<close>
  "find_model_name i [] = None"
| "find_model_name i (cell # cells) =
     (if length cell > 2 \<and> \<not> contains (u ''$'') cell \<and> \<not> isdigit cell \<and> list_ex isalnum_cp cell
      then Some (strip (replace (u ''NEW'') [] cell), i)
      else find_model_name (i + 1) cells)"

definition price_at :: "(rat \<Rightarrow> 'f) \<Rightarrow> ustr list \<Rightarrow> nat \<Rightarrow> 'f val" where
  \<comment> \<open>the price read from the cell with index \<open>i\<close>: \<^verbatim>\<open>None\<close> when there is no such cell,
      when it has no \<^verbatim>\<open>$\<close>, or when no number is found in it\<close>
  "price_at fl cell_values i =
     (if i < length cell_values \<and> contains (u ''$'') (cell_values ! i)
      then (case extract_price fl (cell_values ! i) of Some p \<Rightarrow> VFloat p | None \<Rightarrow> VNone)
      else VNone)"

text \<open>
  \<^verbatim>\<open>_extract_model_from_row\<close>. A row is the list of the \<^verbatim>\<open>inner_text()\<close> of its cells
  (\<^verbatim>\<open>td\<close> and \<^verbatim>\<open>[role='cell']\<close>), or \<open>None\<close> when a browser call on the row raises; every
  exception inside the method ends in \<^verbatim>\<open>return None\<close>.
\<close>

definition extract_model_from_row :: "(rat \<Rightarrow> 'f) \<Rightarrow> ustr list option \<Rightarrow> 'f pydict option" where
  "extract_model_from_row fl row =
     (case row of
        None \<Rightarrow> None
      | Some cells \<Rightarrow>
          if cells = [] then None
          else (let cell_values = filter (\<lambda>cleaned. cleaned \<noteq> []) (map clean_cell cells)
                in if length cell_values < 2 then None
                   else (case find_model_name 0 cell_values of
                           None \<Rightarrow> None
                         | Some (model_name, model_name_index) \<Rightarrow>
                             if model_name = [] \<or> length model_name < 2 then None
                             else if list_ex (\<lambda>x. contains (u x) (lower model_name))
                                       [''rank'', ''model'', ''position'', ''name'']
                             then None
                             else (let pricing_start_idx = model_name_index + 1;
                                       input_price = price_at fl cell_values pricing_start_idx;
                                       output_price = price_at fl cell_values (pricing_start_idx + 1);
                                       benchmarks = parse_benchmarks_from_cells fl cell_values;
                                       model_id = extract_model_id model_name
                                   in case extract_parameters_from_cells cell_values of
                                        Inl e \<Rightarrow> None
                                      | Inr parameters \<Rightarrow>
                                          Some [''model_id'' \<mapsto> VStr model_id,
                                                ''model_name'' \<mapsto> VStr model_name,
                                                ''organization'' \<mapsto>
                                                  VStr (if contains (u ''/'') model_id
                                                        then split_first 47 model_id
                                                        else u ''unknown''),
                                                ''benchmarks'' \<mapsto> VList benchmarks,
                                                ''source'' \<mapsto> VStr (u ''llm-stats.com''),
                                                ''is_open_source'' \<mapsto> VBool True,
                                                ''input_price_per_1m'' \<mapsto> input_price,
                                                ''output_price_per_1m'' \<mapsto> output_price,
                                                ''parameters'' \<mapsto>
                                                  (case parameters of None \<Rightarrow> VNone
                                                   | Some p \<Rightarrow> VStr p)]))))"

definition llama_row :: "ustr list" where
  \<comment> \<open>the cells of the scenario row; the first cell is the flag, the two code points
      U+1F1FA and U+1F1F8\<close>
  "llama_row = [[127482, 127480], u ''Llama-3-70B'', u ''$0.60'', u ''$0.80'', u ''85.2%'',
     u ''73.1%'']"

subsection \<open>The JSON fallback\<close>

text \<open>
  What \<^verbatim>\<open>json.loads\<close> returns. An object is the list of its members, each key once.
\<close>

datatype jval = JNull | JBool bool | JNum rat | JStr ustr | JArr "jval list"
  | JObj "(ustr \<times> jval) list"

fun jtruthy :: "jval \<Rightarrow> bool" where
  "jtruthy JNull = False"
| "jtruthy (JBool b) = b"
| "jtruthy (JNum x) = (x \<noteq> 0)"
| "jtruthy (JStr s) = (s \<noteq> [])"
| "jtruthy (JArr xs) = (xs \<noteq> [])"
| "jtruthy (JObj kvs) = (kvs \<noteq> [])"

definition jget :: "(ustr \<times> jval) list \<Rightarrow> string \<Rightarrow> jval \<Rightarrow> jval" where
  \<comment> \<open>\<^verbatim>\<open>item.get(k, default)\<close>\<close>
  "jget kvs k dflt = (case map_of kvs (u k) of None \<Rightarrow> dflt | Some v \<Rightarrow> v)"

text \<open>
  \<^verbatim>\<open>_normalize_json_model\<close>. \<^verbatim>\<open>item.get\<close> raises \<^verbatim>\<open>AttributeError\<close> when the item is no
  dict. With a name that is no string, \<^verbatim>\<open>"/" in model_name\<close> raises \<^verbatim>\<open>TypeError\<close> for
  \<^verbatim>\<open>None\<close>, a boolean or a number, and \<^verbatim>\<open>model_name.lower()\<close> or \<^verbatim>\<open>model_name.split("/")\<close>
  raises \<^verbatim>\<open>AttributeError\<close> for a list or a dict.
\<close>

definition normalize_json_model :: "jval \<Rightarrow> error + 'f pydict" where
  "normalize_json_model item =
     (case item of
        JObj kvs \<Rightarrow>
          (let model_name =
                 (if jtruthy (jget kvs ''model'' JNull) then jget kvs ''model'' JNull
                  else if jtruthy (jget kvs ''name'' JNull) then jget kvs ''name'' JNull
                  else jget kvs ''modelId'' (JStr []))
           in case model_name of
                JStr s \<Rightarrow>
                  Inr [''model_id'' \<mapsto> VStr (extract_model_id s),
                       ''model_name'' \<mapsto> VStr s,
                       ''organization'' \<mapsto>
                         VStr (if contains (u ''/'') s then split_first 47 s else u ''unknown''),
                       ''benchmarks'' \<mapsto> VList [],
                       ''source'' \<mapsto> VStr (u ''llm-stats.com''),
                       ''is_open_source'' \<mapsto> VBool True]
              | JArr xs \<Rightarrow> Inl AttributeError
              | JObj ys \<Rightarrow> Inl AttributeError
              | _ \<Rightarrow> Inl TypeError)
      | _ \<Rightarrow> Inl AttributeError)"

fun wanted_item :: "jval \<Rightarrow> error + bool" where
  \<comment> \<open>\<^verbatim>\<open>isinstance(item, dict) and 'model' in item or 'name' in item\<close>\<close>
  "wanted_item (JObj kvs) = Inr (map_of kvs (u ''model'') \<noteq> None \<or> map_of kvs (u ''name'') \<noteq> None)"
| "wanted_item (JStr s) = Inr (contains (u ''name'') s)"
| "wanted_item (JArr xs) = Inr (JStr (u ''name'') \<in> set xs)"
| "wanted_item JNull = Inl TypeError"
| "wanted_item (JBool b) = Inl TypeError"
| "wanted_item (JNum x) = Inl TypeError"

fun normalize_items :: "jval list \<Rightarrow> error + 'f pydict list" where
  \<comment> \<open>the loop over the items of one decoded list\<close>
  "normalize_items [] = Inr []"
| "normalize_items (item # items) =
     (case wanted_item item of
        Inl e \<Rightarrow> Inl e
      | Inr False \<Rightarrow> normalize_items items
      | Inr True \<Rightarrow>
          (case normalize_json_model item of
             Inl e \<Rightarrow> Inl e
           | Inr m \<Rightarrow> (case normalize_items items of Inl e \<Rightarrow> Inl e | Inr ms \<Rightarrow> Inr (m # ms))))"

text \<open>
  \<^verbatim>\<open>_extract_from_page_source\<close>, from the matches of \<^verbatim>\<open>json_pattern\<close> on: each match is
  given as what \<^verbatim>\<open>json.loads\<close> makes of it, \<open>None\<close> for a \<^verbatim>\<open>JSONDecodeError\<close> (the only
  exception caught, by \<^verbatim>\<open>continue\<close>).
\<close>

fun extract_from_page_source :: "jval option list \<Rightarrow> error + 'f pydict list" where
  "extract_from_page_source [] = Inr []"
| "extract_from_page_source (None # matches) = extract_from_page_source matches"
| "extract_from_page_source (Some (JArr items) # matches) =
     (case normalize_items items of
        Inl e \<Rightarrow> Inl e
      | Inr ms \<Rightarrow>
          (case extract_from_page_source matches of Inl e \<Rightarrow> Inl e | Inr rest \<Rightarrow> Inr (ms @ rest)))"
| "extract_from_page_source (Some other # matches) = extract_from_page_source matches"

subsection \<open>The page\<close>

text \<open>
  The rendered page, as \<^verbatim>\<open>_extract_models\<close> sees it: the rows found by the first selector
  and those found by the alternative selectors (\<open>None\<close> when \<^verbatim>\<open>query_selector_all\<close>
  raises), and the decoded matches in \<^verbatim>\<open>page.content()\<close> (\<open>None\<close> when \<^verbatim>\<open>content()\<close>
  raises).
\<close>

record page =
  table_rows :: "ustr list option list option"
  alternative_rows :: "ustr list option list option"
  content_matches :: "jval option list option"

definition fallback_models :: "page \<Rightarrow> 'f pydict list" where
  \<comment> \<open>the handler of the outer \<^verbatim>\<open>except\<close>: \<^verbatim>\<open>models\<close> stays empty when the fallback
      fails too\<close>
  "fallback_models p =
     (case content_matches p of
        None \<Rightarrow> []
      | Some matches \<Rightarrow>
          (case extract_from_page_source matches of Inl e \<Rightarrow> [] | Inr ms \<Rightarrow> ms))"

definition extract_models :: "(rat \<Rightarrow> 'f) \<Rightarrow> page \<Rightarrow> 'f pydict list" where
  \<comment> \<open>\<^verbatim>\<open>_extract_models\<close>\<close>
  "extract_models fl p =
     (case table_rows p of
        None \<Rightarrow> fallback_models p
      | Some rows1 \<Rightarrow>
          if rows1 = []
          then (case alternative_rows p of
                  None \<Rightarrow> fallback_models p
                | Some rows2 \<Rightarrow> List.map_filter (extract_model_from_row fl) rows2)
          else List.map_filter (extract_model_from_row fl) rows1)"

text \<open>
  What loading the leaderboard can do: the browser fails outside the \<^verbatim>\<open>try\<close> block
  (launch, new page, close), \<^verbatim>\<open>goto\<close> or \<^verbatim>\<open>wait_for_selector\<close> raises
  \<^verbatim>\<open>PlaywrightTimeoutError\<close>, something else raises inside the \<^verbatim>\<open>try\<close> block, or the page
  is rendered.
\<close>

datatype load = Browser_fails | Render_timeout | Render_error | Rendered page

fun scrape_leaderboard :: "(rat \<Rightarrow> 'f) \<Rightarrow> load \<Rightarrow> error + 'f pydict list" where
  "scrape_leaderboard fl Browser_fails = Inl BrowserError"
| "scrape_leaderboard fl Render_timeout = Inr []"
| "scrape_leaderboard fl Render_error = Inr []"
| "scrape_leaderboard fl (Rendered p) = Inr (extract_models fl p)"

section \<open>\<^verbatim>\<open>LLMStatsOrchestrator.collect_all_data\<close>\<close>

text \<open>
  The state of a run: the fetch client of the secondary source and the files. The result
  is the list returned, or the exception that leaves the method.
\<close>

record 'f world =
  hf_scraper :: "'f pydict client"
  disk :: files

definition collect_all_data :: "(rat \<Rightarrow> 'f) \<Rightarrow> (nat \<Rightarrow> ustr \<Rightarrow> http_outcome)
     \<Rightarrow> (ustr \<Rightarrow> ustr \<Rightarrow> 'f pydict option) \<Rightarrow> ustr \<Rightarrow> ('f snapshot \<Rightarrow> ustr list) \<Rightarrow> nat option
     \<Rightarrow> ustr \<Rightarrow> load \<Rightarrow> bool \<Rightarrow> 'f world \<Rightarrow> (error + 'f pydict list) \<times> 'f world" where
  "collect_all_data fl net parse now encode fault output_file ld enrich_with_hf w =
     (case scrape_leaderboard fl ld of
        Inl e \<Rightarrow> (Inl e, w)
      | Inr ms \<Rightarrow>
          if ms = [] then (Inr [], w)
          else (case (if enrich_with_hf then enrich_with_huggingface fl net parse (hf_scraper w) ms
                      else (ms, hf_scraper w)) of
                  (ms1, c1) \<Rightarrow>
                    (case llmstats_save_data fl now encode fault output_file ms1 (disk w) of
                       (None, fs1) \<Rightarrow> (Inr ms1, \<lparr>hf_scraper = c1, disk = fs1\<rparr>)
                     | (Some e, fs1) \<Rightarrow> (Inl e, \<lparr>hf_scraper = c1, disk = fs1\<rparr>))))"

section \<open>Auxiliary predicates and examples\<close>

definition collector_record :: "'f pydict \<Rightarrow> bool" where
  \<comment> \<open>what every record of the collector has: the open-source flag, and a list under
      \<^verbatim>\<open>benchmarks\<close>\<close>
  "collector_record m = (m ''is_open_source'' = Some (VBool True)
       \<and> (case m ''benchmarks'' of Some (VList bs) \<Rightarrow> True | _ \<Rightarrow> False))"

definition glm_row :: "ustr list" where
  "glm_row = [u ''GLM-4'', u ''77%'']"

definition glm_record :: "rat pydict" where
  "glm_record = [''model_id'' \<mapsto> VStr (u ''THUDM/GLM-4''),
           ''model_name'' \<mapsto> VStr (u ''GLM-4''),
           ''organization'' \<mapsto> VStr (u ''THUDM''),
           ''benchmarks'' \<mapsto> VList [Benchmark (u ''MMLU'') 77 (u ''knowledge'')],
           ''source'' \<mapsto> VStr (u ''llm-stats.com''),
           ''is_open_source'' \<mapsto> VBool True,
           ''input_price_per_1m'' \<mapsto> VNone,
           ''output_price_per_1m'' \<mapsto> VNone,
           ''parameters'' \<mapsto> VNone]"

definition json_item :: jval where
  "json_item = JObj [(u ''model'', JStr (u ''acme/foo-7b''))]"

definition json_record :: "rat pydict" where
  "json_record = [''model_id'' \<mapsto> VStr (u ''acme/foo-7b''),
                       ''model_name'' \<mapsto> VStr (u ''acme/foo-7b''),
                       ''organization'' \<mapsto> VStr (u ''acme''),
                       ''benchmarks'' \<mapsto> VList [],
                       ''source'' \<mapsto> VStr (u ''llm-stats.com''),
                       ''is_open_source'' \<mapsto> VBool True]"

definition json_page :: page where
  "json_page = \<lparr>table_rows = None, alternative_rows = None,
      content_matches = Some [Some (JArr [json_item])]\<rparr>"

section \<open>Markup extraction: \<^verbatim>\<open>HuggingFaceScraper._parse_model_page\<close>\<close>

text \<open>
  The document as \<^verbatim>\<open>BeautifulSoup(html, 'html.parser')\<close> gives it: a tree of elements (name,
  attributes, children) and text nodes. The root is the soup object itself.
\<close>

datatype node = Text ustr | Tag string "(string \<times> ustr) list" "node list"

fun descendants :: "node \<Rightarrow> node list" where
  \<comment> \<open>the nodes below a node, in document order\<close>
  "descendants (Text s) = []"
| "descendants (Tag nm attrs children) = concat (map (\<lambda>c. c # descendants c) children)"

fun get_text :: "node \<Rightarrow> ustr" where
  \<comment> \<open>\<^verbatim>\<open>.text\<close>: the text nodes below, joined\<close>
  "get_text (Text s) = s"
| "get_text (Tag nm attrs children) = concat (map get_text children)"

fun is_tag :: "string list \<Rightarrow> node \<Rightarrow> bool" where
  "is_tag names (Text s) = False"
| "is_tag names (Tag nm attrs children) = (nm \<in> set names)"

definition find_all :: "string list \<Rightarrow> node \<Rightarrow> node list" where
  \<comment> \<open>\<^verbatim>\<open>find_all(name)\<close> and \<^verbatim>\<open>find_all([name, ...])\<close>\<close>
  "find_all names n = filter (is_tag names) (descendants n)"

fun attr :: "node \<Rightarrow> string \<Rightarrow> ustr option" where
  "attr (Text s) k = None"
| "attr (Tag nm attrs children) k = map_of attrs k"

definition attr_or_empty :: "node \<Rightarrow> string \<Rightarrow> ustr" where
  \<comment> \<open>\<^verbatim>\<open>tag.get(k, '')\<close>\<close>
  "attr_or_empty n k = (case attr n k of None \<Rightarrow> [] | Some v \<Rightarrow> v)"

definition find_link :: "string \<Rightarrow> node \<Rightarrow> node option" where
  \<comment> \<open>\<^verbatim>\<open>soup.find('a', href=re.compile(p))\<close> for a pattern \<open>p\<close> that is a literal string:
      the first \<^verbatim>\<open>a\<close> whose \<^verbatim>\<open>href\<close> contains it\<close>
  "find_link p soup =
     find (\<lambda>n. is_tag [''a''] n
                \<and> (case attr n ''href'' of None \<Rightarrow> False | Some v \<Rightarrow> contains (u p) v))
       (descendants soup)"

definition find_meta :: "string \<Rightarrow> node \<Rightarrow> node option" where
  \<comment> \<open>\<^verbatim>\<open>soup.find('meta', attrs={'name': k})\<close>\<close>
  "find_meta k soup =
     find (\<lambda>n. is_tag [''meta''] n \<and> attr n ''name'' = Some (u k)) (descendants soup)"

subsection \<open>License\<close>

definition license_re :: "item list" where
  \<comment> \<open>\<^verbatim>\<open>license:\s*([^\n]+)\<close>; the group is item 9\<close>
  "license_re = word ''license:'' @ [(isspace, Star), ((\<lambda>c. c \<noteq> 10), Plus)]"

definition extract_license :: "node \<Rightarrow> ustr option" where
  \<comment> \<open>\<^verbatim>\<open>_extract_license\<close>: the first of the three places that is there decides, also
      when what it holds is empty\<close>
  "extract_license soup =
     (case find_link ''/license'' soup of
        Some license_element \<Rightarrow> Some (strip (get_text license_element))
      | None \<Rightarrow>
          (case find_meta ''license'' soup of
             Some meta_license \<Rightarrow> Some (strip (attr_or_empty meta_license ''content''))
           | None \<Rightarrow>
               (case re_search license_re (get_text soup) of
                  Some ps \<Rightarrow> Some (strip (group 9 1 ps))
                | None \<Rightarrow> None)))"

definition is_open_source_license :: "ustr \<Rightarrow> bool" where
  \<comment> \<open>\<^verbatim>\<open>_is_open_source_license\<close>\<close>
  "is_open_source_license license_name =
     list_ex (\<lambda>oss. contains (u oss) (lower license_name))
       [''mit'', ''apache'', ''apache-2.0'', ''gpl'', ''bsd'', ''cc-by'',
        ''llama'', ''openrail'', ''bigscience'', ''deepseek'']"

subsection \<open>Benchmarks\<close>

definition hf_categorize_benchmark :: "ustr \<Rightarrow> ustr" where
  \<comment> \<open>\<^verbatim>\<open>HuggingFaceScraper._categorize_benchmark\<close>\<close>
  "hf_categorize_benchmark nm =
     (let name_lower = lower nm
      in if list_ex (\<lambda>x. contains (u x) name_lower) [''code'', ''swe'', ''humaneval'', ''livecode'']
         then u ''coding''
         else if list_ex (\<lambda>x. contains (u x) name_lower) [''math'', ''gsm'', ''aime'', ''hmmt'']
         then u ''reasoning''
         else if list_ex (\<lambda>x. contains (u x) name_lower) [''agent'', ''tool'', ''browse'']
         then u ''agents''
         else if list_ex (\<lambda>x. contains (u x) name_lower) [''mmlu'', ''gpqa'', ''reasoning'']
         then u ''reasoning''
         else u ''general'')"

definition number_re :: "item list" where
  \<comment> \<open>\<^verbatim>\<open>(\d+\.?\d*)\<close>\<close>
  "number_re = [(ascii_digit, Plus), (lit CHR ''.'', Opt), (ascii_digit, Star)]"

definition row_benchmark :: "(rat \<Rightarrow> 'f) \<Rightarrow> node \<Rightarrow> 'f benchmark list" where
  \<comment> \<open>what one \<^verbatim>\<open>tr\<close> adds to \<^verbatim>\<open>benchmarks\<close>: one entry or none\<close>
  "row_benchmark fl row =
     (let cells = find_all [''td'', ''th''] row
      in if length cells \<ge> 2
         then (let benchmark_name = strip (get_text (cells ! 0));
                   score_text = strip (get_text (cells ! 1))
               in case re_search number_re score_text of
                    None \<Rightarrow> []
                  | Some ps \<Rightarrow>
                      (case py_float (concat ps) of
                         None \<Rightarrow> []
                       | Some v \<Rightarrow>
                           [Benchmark benchmark_name (fl v) (hf_categorize_benchmark benchmark_name)]))
         else [])"

definition table_benchmarks :: "(rat \<Rightarrow> 'f) \<Rightarrow> node \<Rightarrow> 'f benchmark list" where
  \<comment> \<open>the loop over the tables and their rows\<close>
  "table_benchmarks fl soup =
     concat (map (\<lambda>table. concat (map (row_benchmark fl) (find_all [''tr''] table)))
               (find_all [''table''] soup))"

definition score_tail :: "item list" where
  \<comment> \<open>\<^verbatim>\<open>[:\s]+([0-9.]+)%?\<close>, the end of the seven patterns\<close>
  "score_tail = [((\<lambda>c. c = 58 \<or> isspace c), Plus), ((\<lambda>c. ascii_digit c \<or> c = 46), Plus),
                 (lit CHR ''%'', Opt)]"

definition dash_or_space :: item where
  \<comment> \<open>\<^verbatim>\<open>[- ]\<close>\<close>
  "dash_or_space = ((\<lambda>c. c = 45 \<or> c = 32), One)"

definition name_patterns :: "item list list" where
  \<comment> \<open>the name groups of \<^verbatim>\<open>patterns\<close>, which are compiled with \<^verbatim>\<open>re.IGNORECASE\<close>\<close>
  "name_patterns =
     [word_i ''MMLU'' @ [dash_or_space] @ word_i ''Pro'',
      word_i ''GPQA'' @ [dash_or_space] @ word_i ''Diamond'',
      word_i ''SWE'' @ [dash_or_space] @ word_i ''bench'',
      word_i ''HumanEval'',
      word_i ''AIME'' @ [dash_or_space, (ascii_digit, Plus)],
      word_i ''LiveCodeBench'',
      word_i ''GSM8K'']"

definition match_benchmark :: "(rat \<Rightarrow> 'f) \<Rightarrow> nat \<Rightarrow> ustr list \<Rightarrow> 'f benchmark list" where
  \<comment> \<open>what one match adds, for a name group of \<open>n\<close> items: nothing when \<^verbatim>\<open>float\<close> raises\<close>
  "match_benchmark fl n ps =
     (let nm = strip (group 0 n ps)
      in case py_float (group (n + 1) 1 ps) of
           None \<Rightarrow> []
         | Some v \<Rightarrow> [Benchmark nm (fl v) (hf_categorize_benchmark nm)])"

definition extract_benchmarks_from_text :: "(rat \<Rightarrow> 'f) \<Rightarrow> ustr \<Rightarrow> 'f benchmark list" where
  \<comment> \<open>\<^verbatim>\<open>_extract_benchmarks_from_text\<close>\<close>
  "extract_benchmarks_from_text fl txt =
     concat (map (\<lambda>nm. concat (map (match_benchmark fl (length nm))
                                   (re_finditer (nm @ score_tail) txt)))
               name_patterns)"

fun unique_benchmarks :: "(ustr \<times> 'f) set \<Rightarrow> 'f benchmark list \<Rightarrow> 'f benchmark list" where
  \<comment> \<open>the loop that removes duplicates, \<open>seen\<close> being the set of the keys met so far\<close>
  "unique_benchmarks seen [] = []"
| "unique_benchmarks seen (b # bs) =
     (if (name b, score b) \<in> seen then unique_benchmarks seen bs
      else b # unique_benchmarks (insert (name b, score b) seen) bs)"

definition found_benchmarks :: "(rat \<Rightarrow> 'f) \<Rightarrow> node \<Rightarrow> 'f benchmark list" where
  \<comment> \<open>\<^verbatim>\<open>benchmarks\<close> before the duplicates are removed: the entries of the tables, then
      those of the text\<close>
  "found_benchmarks fl soup =
     table_benchmarks fl soup @ extract_benchmarks_from_text fl (get_text soup)"

definition extract_benchmarks :: "(rat \<Rightarrow> 'f) \<Rightarrow> node \<Rightarrow> 'f benchmark list" where
  \<comment> \<open>\<^verbatim>\<open>_extract_benchmarks\<close>\<close>
  "extract_benchmarks fl soup = unique_benchmarks {} (found_benchmarks fl soup)"

subsection \<open>The other fields\<close>

fun re_match_any :: "item list list \<Rightarrow> ustr \<Rightarrow> ustr list option" where
  \<comment> \<open>an alternation: the first alternative that matches at the start of the string\<close>
  "re_match_any [] s = None"
| "re_match_any (its # alts) s =
     (case re_match its s of Some ps \<Rightarrow> Some ps | None \<Rightarrow> re_match_any alts s)"

fun re_search_any :: "item list list \<Rightarrow> ustr \<Rightarrow> ustr list option" where
  \<comment> \<open>\<^verbatim>\<open>re.search\<close> for an alternation\<close>
  "re_search_any alts [] = re_match_any alts []"
| "re_search_any alts (c # cs) =
     (case re_match_any alts (c # cs) of Some ps \<Rightarrow> Some ps | None \<Rightarrow> re_search_any alts cs)"

definition digit_or_comma :: "cp \<Rightarrow> bool" where
  \<comment> \<open>\<^verbatim>\<open>[0-9,]\<close>\<close>
  "digit_or_comma c = (ascii_digit c \<or> c = 44)"

definition colon_or_space :: "cp \<Rightarrow> bool" where
  \<comment> \<open>\<^verbatim>\<open>[:\s]\<close>\<close>
  "colon_or_space c = (c = 58 \<or> isspace c)"

definition int_without_commas :: "ustr \<Rightarrow> 'f val option" where
  \<comment> \<open>\<^verbatim>\<open>int(s.replace(',', ''))\<close> for an \<open>s\<close> of digits and commas; \<open>None\<close> for the
      \<^verbatim>\<open>ValueError\<close> raised when no digit is left\<close>
  "int_without_commas s =
     map_option (\<lambda>n. VInt (int n)) (py_int (replace (u '','') [] s))"

definition context_re :: "item list list" where
  \<comment> \<open>\<^verbatim>\<open>context[_ ](?:window|length)[:\s]*([0-9,]+)\<close> with \<^verbatim>\<open>re.IGNORECASE\<close>, one
      sequence for each side of the alternation; the group is item 15 in both\<close>
  "context_re =
     [word_i ''context'' @ [((\<lambda>c. c = 95 \<or> c = 32), One)] @ word_i ''window''
        @ [(colon_or_space, Star), (digit_or_comma, Plus)],
      word_i ''context'' @ [((\<lambda>c. c = 95 \<or> c = 32), One)] @ word_i ''length''
        @ [(colon_or_space, Star), (digit_or_comma, Plus)]]"

definition extract_metadata :: "node \<Rightarrow> 'f pydict" where
  \<comment> \<open>\<^verbatim>\<open>_extract_metadata\<close>\<close>
  "extract_metadata soup =
     (case re_search_any context_re (get_text soup) of
        None \<Rightarrow> Map.empty
      | Some ps \<Rightarrow>
          (case int_without_commas (group 15 1 ps) of
             None \<Rightarrow> Map.empty
           | Some n \<Rightarrow> [''context_window'' \<mapsto> n]))"

definition extract_description :: "node \<Rightarrow> ustr option" where
  \<comment> \<open>\<^verbatim>\<open>_extract_description\<close>\<close>
  "extract_description soup =
     (case find_meta ''description'' soup of
        Some meta_desc \<Rightarrow> Some (strip (attr_or_empty meta_desc ''content''))
      | None \<Rightarrow>
          (case find (\<lambda>p. length (strip (get_text p)) > 50) (take 3 (find_all [''p''] soup)) of
             Some p \<Rightarrow> Some (take 500 (strip (get_text p)))
           | None \<Rightarrow> None))"

definition count_re :: "string \<Rightarrow> item list" where
  \<comment> \<open>\<^verbatim>\<open>([0-9,]+)\s*downloads?\<close> and \<^verbatim>\<open>([0-9,]+)\s*likes?\<close>, with \<^verbatim>\<open>re.IGNORECASE\<close>; the
      group is item 0\<close>
  "count_re w = [(digit_or_comma, Plus), (isspace, Star)] @ word_i w @ [(lit_i CHR ''s'', Opt)]"

definition extract_count :: "string \<Rightarrow> ustr \<Rightarrow> 'f val option" where
  "extract_count w txt =
     (case re_search (count_re w) txt of
        None \<Rightarrow> None
      | Some ps \<Rightarrow> int_without_commas (group 0 1 ps))"

definition extract_stats :: "node \<Rightarrow> 'f pydict" where
  \<comment> \<open>\<^verbatim>\<open>_extract_stats\<close>\<close>
  "extract_stats soup =
     (let stats = (case extract_count ''download'' (get_text soup) of
                     None \<Rightarrow> Map.empty
                   | Some downloads \<Rightarrow> [''downloads'' \<mapsto> downloads])
      in case extract_count ''like'' (get_text soup) of
           None \<Rightarrow> stats
         | Some likes \<Rightarrow> stats(''likes'' \<mapsto> likes))"

definition upper :: "ustr \<Rightarrow> ustr" where
  \<comment> \<open>\<^verbatim>\<open>s.upper()\<close> for the strings it is applied to, made of ASCII digits, dots and one
      ASCII letter\<close>
  "upper s = map (\<lambda>c. if 97 \<le> c \<and> c \<le> 122 then c - 32 else c) s"

definition bmk :: "cp \<Rightarrow> bool" where
  \<comment> \<open>\<^verbatim>\<open>[BMK]\<close> with \<^verbatim>\<open>re.IGNORECASE\<close>\<close>
  "bmk c = (lower_cp c = 98 \<or> lower_cp c = 109 \<or> lower_cp c = 107)"

definition size_re :: "item list" where
  \<comment> \<open>\<^verbatim>\<open>\d+\.?\d*[BMK]\<close>\<close>
  "size_re = [(ascii_digit, Plus), (lit CHR ''.'', Opt), (ascii_digit, Star), (bmk, One)]"

definition extract_parameters :: "ustr \<Rightarrow> ustr option" where
  \<comment> \<open>\<^verbatim>\<open>_extract_parameters\<close>, which reads the raw markup: the pattern
      \<^verbatim>\<open>(\d+\.?\d*[BMK])\s*parameters?\<close>, then \<^verbatim>\<open>parameters?[:\s]+(\d+\.?\d*[BMK])\<close>\<close>
  "extract_parameters html =
     (case re_search (size_re @ [(isspace, Star)] @ word_i ''parameter'' @ [(lit_i CHR ''s'', Opt)])
             html of
        Some ps \<Rightarrow> Some (upper (group 0 4 ps))
      | None \<Rightarrow>
          (case re_search (word_i ''parameter'' @ [(lit_i CHR ''s'', Opt), (colon_or_space, Plus)]
                             @ size_re) html of
             Some ps \<Rightarrow> Some (upper (group 11 4 ps))
           | None \<Rightarrow> None))"

definition arxiv_number_re :: "item list" where
  \<comment> \<open>\<^verbatim>\<open>(\d+\.\d+)\<close>\<close>
  "arxiv_number_re = [(ascii_digit, Plus), (lit CHR ''.'', One), (ascii_digit, Plus)]"

definition extract_arxiv :: "node \<Rightarrow> ustr \<Rightarrow> ustr option" where
  \<comment> \<open>\<^verbatim>\<open>_extract_arxiv\<close>: \<^verbatim>\<open>arxiv[:\s]+(\d+\.\d+)\<close> with \<^verbatim>\<open>re.IGNORECASE\<close> in the raw markup,
      then the first link to \<^verbatim>\<open>arxiv.org\<close>\<close>
  "extract_arxiv soup html =
     (case re_search (word_i ''arxiv'' @ [(colon_or_space, Plus)] @ arxiv_number_re) html of
        Some ps \<Rightarrow> Some (group 6 3 ps)
      | None \<Rightarrow>
          (case find_link ''arxiv.org'' soup of
             None \<Rightarrow> None
           | Some arxiv_link \<Rightarrow>
               (case re_search arxiv_number_re (attr_or_empty arxiv_link ''href'') of
                  Some ps \<Rightarrow> Some (concat ps)
                | None \<Rightarrow> None)))"

subsection \<open>The record\<close>

definition with_key :: "string \<Rightarrow> ustr option \<Rightarrow> 'f pydict \<Rightarrow> 'f pydict" where
  \<comment> \<open>\<^verbatim>\<open>if x: model_data[k] = x\<close>: \<^verbatim>\<open>None\<close> and the empty string store nothing\<close>
  "with_key k x d = (case x of None \<Rightarrow> d | Some s \<Rightarrow> if s = [] then d else d(k \<mapsto> VStr s))"

text \<open>
  \<^verbatim>\<open>_parse_model_page\<close>, given the markup \<open>html\<close> and the tree \<open>soup\<close> that
  \<^verbatim>\<open>BeautifulSoup\<close> makes of it.
\<close>

definition parse_model_page :: "(rat \<Rightarrow> 'f) \<Rightarrow> node \<Rightarrow> ustr \<Rightarrow> ustr \<Rightarrow> 'f pydict" where
  "parse_model_page fl soup html model_id =
     (let model_data = [''model_id'' \<mapsto> VStr model_id,
                        ''model_name'' \<mapsto> VStr (split_last 47 model_id),
                        ''organization'' \<mapsto>
                          VStr (if contains (u ''/'') model_id then split_first 47 model_id else []),
                        ''is_open_source'' \<mapsto> VBool False,
                        ''benchmarks'' \<mapsto> VList []];
          model_data = (case extract_license soup of
                          None \<Rightarrow> model_data
                        | Some license_info \<Rightarrow>
                            if license_info = [] then model_data
                            else model_data(''license'' \<mapsto> VStr license_info,
                                   ''is_open_source'' \<mapsto>
                                      VBool (is_open_source_license license_info)));
          model_data = model_data ++ extract_metadata soup;
          model_data = model_data(''benchmarks'' \<mapsto> VList (extract_benchmarks fl soup));
          model_data = with_key ''description'' (extract_description soup) model_data;
          model_data = model_data ++ extract_stats soup;
          model_data = with_key ''parameters'' (extract_parameters html) model_data
      in with_key ''arxiv_id'' (extract_arxiv soup html) model_data)"

text \<open>
  The parser the fetch client is run with: \<open>bs\<close> is \<^verbatim>\<open>BeautifulSoup(html, 'html.parser')\<close>,
  \<open>None\<close> when it raises.
\<close>

definition hf_parse :: "(rat \<Rightarrow> 'f) \<Rightarrow> (ustr \<Rightarrow> node option) \<Rightarrow> ustr \<Rightarrow> ustr
     \<Rightarrow> 'f pydict option" where
  "hf_parse fl bs html model_id =
     (case bs html of
        None \<Rightarrow> None
      | Some soup \<Rightarrow> Some (parse_model_page fl soup html model_id))"

text \<open>The document of the scenario: a table with one row, and a paragraph.\<close>

definition scenario_soup :: node where
  "scenario_soup =
     Tag ''[document]'' []
       [Tag ''table'' []
          [Tag ''tr'' [] [Tag ''td'' [] [Text (u ''MMLU'')], Tag ''td'' [] [Text (u ''85.5%'')]]],
        Tag ''p'' [] [Text (u ''license: apache-2.0'')]]"

definition key :: "'f benchmark \<Rightarrow> ustr \<times> 'f" where
  \<comment> \<open>the pair by which duplicates are recognised\<close>
  "key b = (name b, score b)"

definition cased_secondary_example :: "rat pydict" where
  \<comment> \<open>a secondary record whose identifier differs from that of \<open>primary_example\<close> in
      letter case only\<close>
  "cased_secondary_example = [''model_id'' \<mapsto> VStr (u ''Acme/Foo-7B''),
     ''license'' \<mapsto> VStr (u ''apache-2.0''),
     ''benchmarks'' \<mapsto> VList [Benchmark (u ''GSM8K'') 90 (u ''reasoning'')]]"

definition count_encoder :: "'f snapshot \<Rightarrow> ustr list" where
  \<comment> \<open>an encoder for the examples: it writes \<^verbatim>\<open>total_count\<close> and the number of models\<close>
  "count_encoder out = [u ''total_count='', str_nat (total_count out), u '' models='',
     str_nat (length (models out))]"

section \<open>Properties of the fetch client\<close>

lemma scrape_model_hit:
  "cache c model_id = Some r \<Longrightarrow> scrape_model net parse c model_id = (r, c)"
  by (simp add: scrape_model_def)

lemma scrape_model_stored:
  assumes "cache c model_id = None"
    and "stored parse model_id (net (length (requests c)) (model_url model_id))"
    and "scrape_model net parse c model_id = (r, c')"
  shows "cache c' model_id = Some r \<and> requests c' = requests c @ [model_url model_id]"
  using assms
  by (cases "net (length (requests c)) (model_url model_id)")
     (auto simp: scrape_model_def Let_def split: if_splits option.splits)

lemma scrape_model_not_stored:
  assumes "cache c model_id = None"
    and "\<not> stored parse model_id (net (length (requests c)) (model_url model_id))"
    and "scrape_model net parse c model_id = (r, c')"
  shows "r = None \<and> cache c' = cache c \<and> requests c' = requests c @ [model_url model_id]"
  using assms
  by (cases "net (length (requests c)) (model_url model_id)")
     (auto simp: scrape_model_def Let_def split: if_splits option.splits)

lemma scrape_model_miss:
  assumes "cache c b = None"
  shows "requests (snd (scrape_model net parse c b)) = requests c @ [model_url b]"
  using assms
  by (cases "net (length (requests c)) (model_url b)")
     (auto simp: scrape_model_def Let_def split: if_splits option.splits)

text \<open>
  C4, as amended. A fetch that hit the cache, or that got a 404, or that got a response
  passing \<^verbatim>\<open>raise_for_status\<close> whose page was parsed without an exception, leaves an entry
  in the cache: a second fetch of the same identifier, whatever the network would answer,
  returns the same result and issues no request. After a 429, an error status, an
  exception of the request or an exception of the parser nothing is stored, and the
  second fetch issues a request again.
\<close>

theorem fetch_twice:
  assumes "scrape_model net parse c model_id = (r, c')"
  shows "(cache c model_id \<noteq> None \<or> stored parse model_id (net (length (requests c)) (model_url model_id))
            \<longrightarrow> scrape_model net' parse c' model_id = (r, c'))
       \<and> (cache c model_id = None \<and> \<not> stored parse model_id (net (length (requests c)) (model_url model_id))
            \<longrightarrow> r = None
              \<and> requests (snd (scrape_model net' parse c' model_id))
                  = requests c' @ [model_url model_id])"
proof (cases "cache c model_id")
  case (Some r0)
  with assms have "r = r0" "c' = c" by (simp_all add: scrape_model_def)
  with Some show ?thesis by (simp add: scrape_model_hit)
next
  case None
  show ?thesis
  proof (cases "stored parse model_id (net (length (requests c)) (model_url model_id))")
    case True
    from scrape_model_stored [OF None True assms] have "cache c' model_id = Some r" by simp
    then have "scrape_model net' parse c' model_id = (r, c')" by (rule scrape_model_hit)
    with None True show ?thesis by simp
  next
    case False
    from scrape_model_not_stored [OF None False assms]
    have r: "r = None" and c: "cache c' model_id = None" by (simp_all add: None)
    from scrape_model_miss [OF c]
    have "requests (snd (scrape_model net' parse c' model_id)) = requests c' @ [model_url model_id]" .
    with None False r show ?thesis by simp
  qed
qed

text \<open>
  The theorem at three first fetches of one identifier: a 404, a page that is parsed, and
  a page on which the parser raises. After the first two the second fetch is answered
  from the cache though the network would now fail; after the third it goes to the
  network again.
\<close>

theorem fetch_twice_witness:
  "scrape_model (always Raised_HTTPError) (\<lambda>html mid. Some mid)
       (snd (scrape_model (always (Got not_found)) (\<lambda>html mid. Some mid) empty_client
               (u ''acme/gone'')))
       (u ''acme/gone'')
     = (None, \<lparr>cache = [u ''acme/gone'' \<mapsto> None], requests = [model_url (u ''acme/gone'')]\<rparr>)
   \<and> scrape_model (always Raised_HTTPError) (\<lambda>html mid. Some mid)
       (snd (scrape_model (always (Got (ok_response (u ''<html>'')))) (\<lambda>html mid. Some mid)
               empty_client (u ''acme/foo-7b'')))
       (u ''acme/foo-7b'')
     = (Some (u ''acme/foo-7b''),
        \<lparr>cache = [u ''acme/foo-7b'' \<mapsto> Some (u ''acme/foo-7b'')],
         requests = [model_url (u ''acme/foo-7b'')]\<rparr>)
   \<and> requests (snd (scrape_model (always (Got (ok_response (u ''<![foo bar]>''))))
       (\<lambda>html mid. None :: ustr option)
       (snd (scrape_model (always (Got (ok_response (u ''<![foo bar]>''))))
               (\<lambda>html mid. None) empty_client (u ''acme/foo-7b'')))
       (u ''acme/foo-7b'')))
     = [model_url (u ''acme/foo-7b''), model_url (u ''acme/foo-7b'')]"
proof -
  have e: "cache (empty_client :: ustr client) k = None" for k
    by (simp add: empty_client_def)
  have a1: "scrape_model (always (Got not_found)) (\<lambda>html mid. Some mid) empty_client (u ''acme/gone'')
     = (None, \<lparr>cache = [u ''acme/gone'' \<mapsto> None], requests = [model_url (u ''acme/gone'')]\<rparr>)"
    by (simp add: scrape_model_def empty_client_def always_def not_found_def)
  have a2: "stored (\<lambda>html mid. Some mid) (u ''acme/gone'')
      (always (Got not_found) (length (requests (empty_client :: ustr client)))
          (model_url (u ''acme/gone'')))"
    by (simp add: always_def not_found_def)
  have b1: "scrape_model (always (Got (ok_response (u ''<html>'')))) (\<lambda>html mid. Some mid)
       empty_client (u ''acme/foo-7b'')
     = (Some (u ''acme/foo-7b''),
        \<lparr>cache = [u ''acme/foo-7b'' \<mapsto> Some (u ''acme/foo-7b'')],
         requests = [model_url (u ''acme/foo-7b'')]\<rparr>)"
    by (simp add: scrape_model_def empty_client_def always_def ok_response_def)
  have b2: "stored (\<lambda>html mid. Some mid) (u ''acme/foo-7b'')
      (always (Got (ok_response (u ''<html>''))) (length (requests (empty_client :: ustr client)))
          (model_url (u ''acme/foo-7b'')))"
    by (simp add: always_def ok_response_def)
  have c1: "scrape_model (always (Got (ok_response (u ''<![foo bar]>''))))
       (\<lambda>html mid. None :: ustr option) empty_client (u ''acme/foo-7b'')
     = (None, \<lparr>cache = Map.empty, requests = [model_url (u ''acme/foo-7b'')]\<rparr>)"
    by (simp add: scrape_model_def empty_client_def always_def ok_response_def)
  have c2: "\<not> stored (\<lambda>html mid. None :: ustr option) (u ''acme/foo-7b'')
      (always (Got (ok_response (u ''<![foo bar]>'')))
          (length (requests (empty_client :: ustr client))) (model_url (u ''acme/foo-7b'')))"
    by (simp add: always_def ok_response_def)
  from fetch_twice [OF a1, where net' = "always Raised_HTTPError", THEN conjunct1, THEN mp,
      OF disjI2, OF a2]
  have a: "scrape_model (always Raised_HTTPError) (\<lambda>html mid. Some mid)
       \<lparr>cache = [u ''acme/gone'' \<mapsto> None], requests = [model_url (u ''acme/gone'')]\<rparr>
       (u ''acme/gone'')
     = (None, \<lparr>cache = [u ''acme/gone'' \<mapsto> None], requests = [model_url (u ''acme/gone'')]\<rparr>)" .
  from fetch_twice [OF b1, where net' = "always Raised_HTTPError", THEN conjunct1, THEN mp,
      OF disjI2, OF b2]
  have b: "scrape_model (always Raised_HTTPError) (\<lambda>html mid. Some mid)
       \<lparr>cache = [u ''acme/foo-7b'' \<mapsto> Some (u ''acme/foo-7b'')],
         requests = [model_url (u ''acme/foo-7b'')]\<rparr>
       (u ''acme/foo-7b'')
     = (Some (u ''acme/foo-7b''),
        \<lparr>cache = [u ''acme/foo-7b'' \<mapsto> Some (u ''acme/foo-7b'')],
         requests = [model_url (u ''acme/foo-7b'')]\<rparr>)" .
  from fetch_twice [OF c1, where net' = "always (Got (ok_response (u ''<![foo bar]>'')))",
      THEN conjunct2, THEN mp, OF conjI, OF e c2]
  have c: "requests (snd (scrape_model (always (Got (ok_response (u ''<![foo bar]>''))))
       (\<lambda>html mid. None :: ustr option)
       \<lparr>cache = Map.empty, requests = [model_url (u ''acme/foo-7b'')]\<rparr> (u ''acme/foo-7b'')))
     = [model_url (u ''acme/foo-7b''), model_url (u ''acme/foo-7b'')]"
    by simp
  from a b c show ?thesis by (simp only: a1 b1 c1 snd_conv simp_thms)
qed

text \<open>
  C4 as stated fails for a rate-limited first fetch: both fetches of the same identifier
  issue a request.
\<close>

theorem fetch_twice_rate_limited_counterexample:
  "requests (snd (scrape_model (always (Got rate_limited)) (\<lambda>html mid. Some mid)
       (snd (scrape_model (always (Got rate_limited)) (\<lambda>html mid. Some mid) empty_client
              (u ''acme/foo-7b'')))
       (u ''acme/foo-7b'')))
   = [model_url (u ''acme/foo-7b''), model_url (u ''acme/foo-7b'')]"
  by (simp add: scrape_model_def empty_client_def always_def rate_limited_def)

section \<open>Properties of the merge\<close>

lemma merge_model_frame:
  "k \<notin> set hf_keys \<Longrightarrow> merge_model fl hmap model k = model k"
  by (auto simp: merge_model_def hf_keys_def Let_def split: option.splits)

lemma merge_model_benchmarks:
  "merge_model fl hmap model ''benchmarks'' = model ''benchmarks''"
  by (rule merge_model_frame) (simp add: hf_keys_def)



section \<open>Properties of persistence\<close>

lemma write_chunks:
  "foldl apply_op (fs(p \<mapsto> pre)) (map (Write p) cs) = fs(p \<mapsto> pre @ concat cs)"
  by (induction cs arbitrary: pre) simp_all

lemma run_save_ops:
  "foldl apply_op fs (save_ops p cs) = fs(p \<mapsto> concat cs)"
  using write_chunks [of fs p "[]" cs] by (simp add: save_ops_def)

lemma run_save_ops_prefix:
  "foldl apply_op fs (take (Suc j) (save_ops p cs)) = fs(p \<mapsto> concat (take j cs))"
  using write_chunks [of fs p "[]" "take j cs"] by (simp add: save_ops_def take_map)

text \<open>
  C2, as amended. The snapshot is written in place: a write that runs to its end leaves
  exactly the serialized snapshot at the target path and changes no other path (there is
  no temporary file and no rename); a write interrupted before the file is opened changes
  nothing; a write interrupted after the file was opened and \<open>j\<close> pieces were written
  leaves those \<open>j\<close> pieces at the target path, in place of the previous snapshot.
\<close>

theorem save_in_place:
  "write_snapshot encode None output_file (Inr out) fs
     = (None, fs(output_file \<mapsto> concat (encode out)))
   \<and> write_snapshot encode (Some 0) output_file (Inr out) fs = (Some Interrupted, fs)
   \<and> write_snapshot encode (Some (Suc j)) output_file (Inr out) fs
     = (Some Interrupted, fs(output_file \<mapsto> concat (take j (encode out))))"
  by (simp add: write_snapshot_def run_save_ops run_save_ops_prefix)

text \<open>
  C2 as stated fails: interrupted right after \<^verbatim>\<open>open(..., 'w')\<close>, the save leaves an empty
  file at the target path where the previous snapshot was.
\<close>

theorem save_interrupted_counterexample:
  "snd (simple_save_data (u ''2026-01-01T00:00:00'') (\<lambda>out. [u ''{'', u ''}'']) (Some 1)
          (u ''models.json'') ([] :: rat pydict list)
          [u ''models.json'' \<mapsto> u ''{\"models\": [], \"total_count\": 0}''])
     (u ''models.json'') = Some []
   \<and> [u ''models.json'' \<mapsto> u ''{\"models\": [], \"total_count\": 0}''] (u ''models.json'')
     \<noteq> Some []"
  by (simp add: simple_save_data_def simple_output_data_def write_snapshot_def save_ops_def u_def)

text \<open>
  C9. A snapshot written to its end by either \<^verbatim>\<open>_save_data\<close> is the serialization of an
  object whose \<^verbatim>\<open>models\<close> are the models passed in and whose \<^verbatim>\<open>total_count\<close> is their
  number.
\<close>

theorem snapshot_total_count:
  assumes "llmstats_save_data fl now encode None output_file ms fs = (None, fs')
         \<or> simple_save_data now encode None output_file ms fs = (None, fs')"
  shows "\<exists>out. fs' output_file = Some (concat (encode out))
           \<and> models out = ms \<and> total_count out = length (models out)"
  using assms
  by (auto simp: llmstats_save_data_def simple_save_data_def llmstats_output_data_def
        simple_output_data_def write_snapshot_def run_save_ops split: option.splits)

theorem snapshot_total_count_witness:
  "llmstats_save_data (\<lambda>q. q) (u ''2026-01-01T00:00:00'') count_encoder None (u ''models.json'')
       [primary_example, secondary_example] Map.empty
     = (None, [u ''models.json'' \<mapsto> u ''total_count=2 models=2''])
   \<and> (\<exists>out :: rat snapshot.
         [u ''models.json'' \<mapsto> u ''total_count=2 models=2''] (u ''models.json'')
            = Some (concat (count_encoder out))
         \<and> models out = [primary_example, secondary_example]
         \<and> total_count out = length (models out))
   \<and> simple_save_data (u ''2026-01-01T00:00:00'') count_encoder None (u ''simple.json'')
       [primary_example] Map.empty
     = (None, [u ''simple.json'' \<mapsto> u ''total_count=1 models=1''])
   \<and> (\<exists>out :: rat snapshot.
         [u ''simple.json'' \<mapsto> u ''total_count=1 models=1''] (u ''simple.json'')
            = Some (concat (count_encoder out))
         \<and> models out = [primary_example]
         \<and> total_count out = length (models out))"
proof -
  have n: "str_nat (Suc 0) = [49]" "str_nat (Suc (Suc 0)) = [50]"
    by (subst str_nat.simps, simp)+
  have tb: "total_benchmarks [primary_example, secondary_example] = Some 2"
    by (simp add: primary_example_def secondary_example_def)
  have l: "llmstats_save_data (\<lambda>q. q) (u ''2026-01-01T00:00:00'') count_encoder None
       (u ''models.json'') [primary_example, secondary_example] Map.empty
     = (None, [u ''models.json'' \<mapsto> u ''total_count=2 models=2''])"
    unfolding llmstats_save_data_def llmstats_output_data_def tb
    by (simp add: write_snapshot_def save_ops_def count_encoder_def n) (simp add: u_def)
  have s: "simple_save_data (u ''2026-01-01T00:00:00'') count_encoder None (u ''simple.json'')
       [primary_example] Map.empty
     = (None, [u ''simple.json'' \<mapsto> u ''total_count=1 models=1''])"
    by (simp add: simple_save_data_def simple_output_data_def write_snapshot_def
          save_ops_def count_encoder_def n) (simp add: u_def)
  note a = snapshot_total_count [where fl = "\<lambda>q. q" and now = "u ''2026-01-01T00:00:00''"
      and encode = count_encoder and output_file = "u ''models.json''"
      and ms = "[primary_example, secondary_example]" and fs = Map.empty, OF disjI1, OF l]
  note b = snapshot_total_count [where now = "u ''2026-01-01T00:00:00''"
      and encode = count_encoder and output_file = "u ''simple.json''"
      and ms = "[primary_example]" and fs = Map.empty, OF disjI2, OF s]
  show ?thesis
  proof (intro conjI)
    show "llmstats_save_data (\<lambda>q. q) (u ''2026-01-01T00:00:00'') count_encoder None
       (u ''models.json'') [primary_example, secondary_example] Map.empty
     = (None, [u ''models.json'' \<mapsto> u ''total_count=2 models=2''])" by (rule l)
    show "simple_save_data (u ''2026-01-01T00:00:00'') count_encoder None (u ''simple.json'')
       [primary_example] Map.empty
     = (None, [u ''simple.json'' \<mapsto> u ''total_count=1 models=1''])" by (rule s)
  qed (rule a, rule b)
qed

section \<open>Identifiers are exact keys\<close>

lemma scrape_model_other_key:
  assumes "a \<noteq> b" and "scrape_model net parse c a = (r, c')"
  shows "cache c' b = cache c b"
  using assms
  by (cases "net (length (requests c)) (model_url a)")
     (auto simp: scrape_model_def Let_def split: option.splits if_splits)

text \<open>
  C3, as amended. Identifiers are used as they are written, as cache keys and as merge
  keys: after a fetch of \<open>a\<close>, an identifier \<open>b\<close> that is another string has no cache
  entry and is requested over the network, and a secondary record is merged into a
  primary record only when the two \<^verbatim>\<open>model_id\<close> strings are equal (otherwise the primary
  record only receives its \<^verbatim>\<open>hf_url\<close>).
\<close>

theorem identifiers_verbatim:
  "(a \<noteq> b \<and> cache c b = None \<and> scrape_model net parse c a = (r, c')
      \<longrightarrow> cache c' b = None
        \<and> requests (snd (scrape_model net' parse c' b)) = requests c' @ [model_url b])
   \<and> (get_model_id hf_data \<noteq> get_model_id model
      \<longrightarrow> merge_model fl (hf_data_map [hf_data]) model
          = model(''hf_url'' \<mapsto> VStr (model_url (get_model_id model))))"
proof -
  have "cache c' b = None
        \<and> requests (snd (scrape_model net' parse c' b)) = requests c' @ [model_url b]"
    if "a \<noteq> b" "cache c b = None" "scrape_model net parse c a = (r, c')"
  proof -
    from scrape_model_other_key [OF that(1) that(3)] that(2) have "cache c' b = None" by simp
    then show ?thesis by (simp add: scrape_model_miss)
  qed
  moreover have "merge_model fl (hf_data_map [hf_data]) model
          = model(''hf_url'' \<mapsto> VStr (model_url (get_model_id model)))"
    if "get_model_id hf_data \<noteq> get_model_id model"
    using that by (simp add: merge_model_def hf_data_map_def Let_def)
  ultimately show ?thesis by blast
qed

text \<open>
  The theorem at two identifiers that are different strings, and at a primary record and
  a secondary record whose identifiers differ in letter case only: the secondary record
  is not merged, the primary record only receives its \<^verbatim>\<open>hf_url\<close>.
\<close>

theorem identifiers_verbatim_witness:
  "requests (snd (scrape_model (always (Got (ok_response []))) (\<lambda>html mid. Some mid)
       (snd (scrape_model (always (Got (ok_response []))) (\<lambda>html mid. Some mid) empty_client
              (u ''acme/foo-7b'')))
       (u ''acme/bar-7b'')))
     = [model_url (u ''acme/foo-7b''), model_url (u ''acme/bar-7b'')]
   \<and> get_model_id cased_secondary_example = u ''Acme/Foo-7B''
   \<and> get_model_id primary_example = u ''acme/foo-7b''
   \<and> merge_model (\<lambda>q. q) (hf_data_map [cased_secondary_example]) primary_example
       = primary_example(''hf_url'' \<mapsto> VStr (model_url (u ''acme/foo-7b'')))
   \<and> (primary_example(''hf_url'' \<mapsto> VStr (model_url (u ''acme/foo-7b'')))) ''hf_license'' = None"
proof -
  have ne: "u ''acme/foo-7b'' \<noteq> u ''acme/bar-7b''" by (simp add: u_def)
  have s: "scrape_model (always (Got (ok_response []))) (\<lambda>html mid. Some mid) empty_client (u ''acme/foo-7b'')
    = (Some (u ''acme/foo-7b''),
       \<lparr>cache = [u ''acme/foo-7b'' \<mapsto> Some (u ''acme/foo-7b'')],
        requests = [model_url (u ''acme/foo-7b'')]\<rparr>)"
    by (simp add: scrape_model_def empty_client_def always_def ok_response_def Let_def)
  have e: "cache (empty_client :: ustr client) (u ''acme/bar-7b'') = None"
    by (simp add: empty_client_def)
  have i1: "get_model_id cased_secondary_example = u ''Acme/Foo-7B''"
    by (simp add: get_model_id_def cased_secondary_example_def)
  have i2: "get_model_id primary_example = u ''acme/foo-7b''"
    by (simp add: get_model_id_def primary_example_def)
  have d: "get_model_id cased_secondary_example \<noteq> get_model_id primary_example"
    by (simp add: i1 i2 u_def)
  note t = identifiers_verbatim [where a = "u ''acme/foo-7b''" and b = "u ''acme/bar-7b''"
      and c = "empty_client :: ustr client" and net = "always (Got (ok_response []))"
      and parse = "\<lambda>html mid. Some mid" and net' = "always (Got (ok_response []))"
      and hf_data = cased_secondary_example and model = primary_example and fl = "\<lambda>q. q"]
  from t [THEN conjunct1, THEN mp, OF conjI, OF ne conjI, OF e s]
  have c: "requests (snd (scrape_model (always (Got (ok_response []))) (\<lambda>html mid. Some mid)
       \<lparr>cache = [u ''acme/foo-7b'' \<mapsto> Some (u ''acme/foo-7b'')],
        requests = [model_url (u ''acme/foo-7b'')]\<rparr> (u ''acme/bar-7b'')))
     = [model_url (u ''acme/foo-7b''), model_url (u ''acme/bar-7b'')]"
    by simp
  from t [THEN conjunct2, THEN mp, OF d]
  have m: "merge_model (\<lambda>q. q) (hf_data_map [cased_secondary_example]) primary_example
       = primary_example(''hf_url'' \<mapsto> VStr (model_url (u ''acme/foo-7b'')))"
    by (simp only: i2)
  have n: "(primary_example(''hf_url'' \<mapsto> VStr (model_url (u ''acme/foo-7b'')))) ''hf_license'' = None"
    by (simp add: primary_example_def)
  from c m n i1 i2 show ?thesis by (simp only: s snd_conv simp_thms)
qed

text \<open>
  C3 as stated fails: two identifiers that differ only in letter case, or only in a
  trailing slash, are fetched separately.
\<close>

theorem identifiers_case_counterexample:
  "requests (snd (scrape_model (always (Got (ok_response []))) (\<lambda>html mid. Some mid)
       (snd (scrape_model (always (Got (ok_response []))) (\<lambda>html mid. Some mid) empty_client
              (u ''Acme/Foo-7B'')))
       (u ''acme/foo-7b'')))
     = [model_url (u ''Acme/Foo-7B''), model_url (u ''acme/foo-7b'')]
   \<and> requests (snd (scrape_model (always (Got (ok_response []))) (\<lambda>html mid. Some mid)
       (snd (scrape_model (always (Got (ok_response []))) (\<lambda>html mid. Some mid) empty_client
              (u ''acme/foo-7b'')))
       (u ''acme/foo-7b/'')))
     = [model_url (u ''acme/foo-7b''), model_url (u ''acme/foo-7b/'')]"
  by (simp add: scrape_model_def empty_client_def always_def ok_response_def u_def Let_def)

section \<open>The rendered-table collector on the scenario row\<close>

lemmas str_simps = u_def isspace_def ascii_digit_def isdigit_cp_def isalnum_cp_def lower_cp_def
  lower_def isdigit_def strip_def split_def split_first_def split_last_def lit_def lit_i_def
  word_def word_i_def group_def

lemma llama_row_clean:
  "filter (\<lambda>cleaned. cleaned \<noteq> []) (map clean_cell llama_row) = llama_row"
  unfolding llama_row_def by (simp add: clean_cell_def str_simps)

lemma llama_row_name: "find_model_name 0 llama_row = Some (u ''Llama-3-70B'', 1)"
  by (simp add: llama_row_def str_simps)

lemma llama_row_prices:
  "price_at fl llama_row (Suc (Suc 0)) = VFloat (fl (3 / 5))"
  "price_at fl llama_row (Suc (Suc (Suc 0))) = VFloat (fl (4 / 5))"
  by (simp_all add: llama_row_def price_at_def extract_price_def price_re_def py_float_def
        digits_value_def Let_def str_simps)

lemma llama_row_scores:
  "extract_score fl (u ''85.2%'') = Some (fl (426 / 5))"
  "extract_score fl (u ''73.1%'') = Some (fl (731 / 10))"
  by (simp_all add: extract_score_def score_re_def py_float_def digits_value_def Let_def
        str_simps)

lemma llama_row_categories:
  "llmstats_categorize_benchmark (u ''MMLU'') = u ''knowledge''"
  "llmstats_categorize_benchmark (u ''Arc-Challenge'') = u ''knowledge''"
  by (simp_all add: llmstats_categorize_benchmark_def Let_def str_simps)

lemma benchmark_name_0_1:
  "benchmark_name 0 = u ''MMLU''" "benchmark_name (Suc 0) = u ''Arc-Challenge''"
  by (simp_all add: benchmark_name_def benchmark_names_def)

lemma llama_row_benchmarks:
  "parse_benchmarks_from_cells fl llama_row =
     [Benchmark (u ''MMLU'') (fl (426 / 5)) (u ''knowledge''),
      Benchmark (u ''Arc-Challenge'') (fl (731 / 10)) (u ''knowledge'')]"
  unfolding parse_benchmarks_from_cells_def llama_row_def
  by (simp add: llama_row_scores llama_row_categories benchmark_name_0_1) (simp add: u_def)

lemma llama_row_id: "extract_model_id (u ''Llama-3-70B'') = u ''meta-llama/Llama-3-70B''"
  by (simp add: extract_model_id_def org_mapping_def str_simps)

lemma llama_row_parameters: "extract_parameters_from_cells llama_row = Inr None"
  by (simp add: llama_row_def str_simps)

text \<open>
  C8. The row with the cells flag, \<^verbatim>\<open>Llama-3-70B\<close>, \<^verbatim>\<open>$0.60\<close>, \<^verbatim>\<open>$0.80\<close>, \<^verbatim>\<open>85.2%\<close>, \<^verbatim>\<open>73.1%\<close>
  gives the record with model name \<^verbatim>\<open>Llama-3-70B\<close> (the flag cell, of length 2, is passed
  over), input price 0.60, output price 0.80, and the two benchmarks 85.2 and 73.1 named
  by the first two names of the positional list, \<^verbatim>\<open>MMLU\<close> and \<^verbatim>\<open>Arc-Challenge\<close>.
\<close>

theorem rendered_row_scenario:
  "extract_model_from_row fl (Some llama_row) =
     Some [''model_id'' \<mapsto> VStr (u ''meta-llama/Llama-3-70B''),
           ''model_name'' \<mapsto> VStr (u ''Llama-3-70B''),
           ''organization'' \<mapsto> VStr (u ''meta-llama''),
           ''benchmarks'' \<mapsto> VList [Benchmark (u ''MMLU'') (fl (426 / 5)) (u ''knowledge''),
              Benchmark (u ''Arc-Challenge'') (fl (731 / 10)) (u ''knowledge'')],
           ''source'' \<mapsto> VStr (u ''llm-stats.com''),
           ''is_open_source'' \<mapsto> VBool True,
           ''input_price_per_1m'' \<mapsto> VFloat (fl (3 / 5)),
           ''output_price_per_1m'' \<mapsto> VFloat (fl (4 / 5)),
           ''parameters'' \<mapsto> VNone]"
proof -
  have len: "length llama_row = 6" "llama_row \<noteq> []" by (simp_all add: llama_row_def)
  have nm: "lower (u ''Llama-3-70B'') = u ''llama-3-70b''" by (simp add: str_simps)
  have hdr: "\<not> contains (u ''rank'') (u ''llama-3-70b'')"
       "\<not> contains (u ''model'') (u ''llama-3-70b'')"
       "\<not> contains (u ''position'') (u ''llama-3-70b'')"
       "\<not> contains (u ''name'') (u ''llama-3-70b'')"
    by (simp_all add: u_def)
  have org: "contains (u ''/'') (u ''meta-llama/Llama-3-70B'')"
       "split_first 47 (u ''meta-llama/Llama-3-70B'') = u ''meta-llama''"
    by (simp_all add: str_simps)
  have n0: "u ''Llama-3-70B'' \<noteq> []" "\<not> length (u ''Llama-3-70B'') < 2"
    by (simp_all add: u_def)
  show ?thesis
    unfolding extract_model_from_row_def
    by (simp add: llama_row_clean len llama_row_name llama_row_prices llama_row_benchmarks
          llama_row_id llama_row_parameters nm hdr org n0 Let_def)
qed

section \<open>Properties of the collector and of the run\<close>

lemma row_record:
  "extract_model_from_row fl row = Some d \<Longrightarrow> collector_record d"
  unfolding extract_model_from_row_def collector_record_def
  by (auto simp: Let_def split: option.splits if_splits sum.splits prod.splits)

lemma json_model_record:
  "normalize_json_model item = Inr d \<Longrightarrow> collector_record d"
  unfolding normalize_json_model_def collector_record_def
  by (auto simp: Let_def split: jval.splits if_splits)

lemma items_records:
  "normalize_items items = Inr ms \<Longrightarrow> list_all collector_record ms"
proof (induction items arbitrary: ms)
  case Nil
  then show ?case by simp
next
  case (Cons item items)
  then show ?case
    by (auto split: sum.splits bool.splits dest: json_model_record)
qed

lemma source_records:
  "extract_from_page_source matches = Inr ms \<Longrightarrow> list_all collector_record ms"
proof (induction matches arbitrary: ms)
  case Nil
  then show ?case by simp
next
  case (Cons m matches)
  show ?case
  proof (cases m)
    case None
    with Cons show ?thesis by simp
  next
    case (Some data)
    show ?thesis
    proof (cases data)
      case (JArr items)
      with Some Cons.prems obtain ms1 rest where
        "normalize_items items = Inr ms1" "extract_from_page_source matches = Inr rest"
        "ms = ms1 @ rest"
        by (auto split: sum.splits)
      with Cons.IH [of rest] items_records [of items ms1] show ?thesis by simp
    qed (use Some Cons in simp_all)
  qed
qed

lemma rows_records:
  "list_all collector_record (List.map_filter (extract_model_from_row fl) rows)"
  by (auto simp: list_all_iff map_filter_def dest: row_record)

lemma models_records: "list_all collector_record (extract_models fl p)"
  unfolding extract_models_def fallback_models_def
  by (auto simp: rows_records split: option.splits sum.splits dest: source_records)

lemma leaderboard_records:
  "scrape_leaderboard fl ld = Inr ms \<Longrightarrow> list_all collector_record ms"
  by (cases ld) (auto simp: models_records)

text \<open>
  C10. Every record made from a row, every record made from an item of the JSON fallback,
  and so every record \<^verbatim>\<open>scrape_leaderboard\<close> returns, has \<^verbatim>\<open>is_open_source\<close> set to
  \<^verbatim>\<open>True\<close>; no license is looked at.
\<close>

theorem collector_open_source:
  "(extract_model_from_row fl row = Some d \<longrightarrow> d ''is_open_source'' = Some (VBool True))
   \<and> (normalize_json_model item = Inr d' \<longrightarrow> d' ''is_open_source'' = Some (VBool True))
   \<and> (scrape_leaderboard fl ld = Inr ms \<longrightarrow>
        list_all (\<lambda>m. m ''is_open_source'' = Some (VBool True)) ms)"
proof -
  have "list_all (\<lambda>m. m ''is_open_source'' = Some (VBool True)) ms"
    if "scrape_leaderboard fl ld = Inr ms"
    using leaderboard_records [OF that] by (simp add: list_all_iff collector_record_def)
  then show ?thesis
    using row_record [of fl row d] json_model_record [of item d']
    by (auto simp: collector_record_def)
qed

lemma total_benchmarks_ok:
  "list_all (\<lambda>m. len_benchmarks m \<noteq> None) ms \<Longrightarrow> \<exists>tb. total_benchmarks ms = Some tb"
  by (induction ms) auto

lemma collector_record_len: "collector_record m \<Longrightarrow> len_benchmarks m \<noteq> None"
  by (auto simp: collector_record_def split: option.splits val.splits)

lemma merge_model_len:
  "len_benchmarks (merge_model fl hmap m) = len_benchmarks m"
  using merge_model_benchmarks [of fl hmap m] by simp

lemma enrich_len:
  assumes "enrich_with_huggingface fl net parse c ms = (ms1, c1)"
  shows "length ms1 = length ms \<and> list_all (\<lambda>m. len_benchmarks m \<noteq> None) ms1
           = list_all (\<lambda>m. len_benchmarks m \<noteq> None) ms"
  using assms
  by (auto simp: enrich_with_huggingface_def Let_def list_all_iff merge_model_len
        simp del: len_benchmarks.simps split: prod.splits)

text \<open>
  C5, as amended. A render timeout or error makes the collector return an empty sequence.
  When the collector returns an empty sequence the run ends at once with an empty list:
  no request to the secondary source, no snapshot, no file changed. When it returns
  records, the run whose write is not interrupted returns as many records and writes the
  snapshot with its enrichment count, whatever the fetches of the secondary source
  answer.
\<close>

theorem empty_collection_ends_run:
  "(scrape_leaderboard fl Render_timeout = Inr [] \<and> scrape_leaderboard fl Render_error = Inr [])
   \<and> (scrape_leaderboard fl ld = Inr [] \<longrightarrow>
        collect_all_data fl net parse now encode fault output_file ld enrich w = (Inr [], w))
   \<and> (scrape_leaderboard fl ld = Inr ms \<and> ms \<noteq> [] \<longrightarrow>
        (\<exists>ms1 w1 out.
           collect_all_data fl net parse now encode None output_file ld enrich w = (Inr ms1, w1)
           \<and> length ms1 = length ms
           \<and> disk w1 output_file = Some (concat (encode out))
           \<and> models out = ms1
           \<and> metadata out ''hf_enriched_count'' = Some (VInt (int (hf_enriched fl ms1)))))"
proof -
  have "\<exists>ms1 w1 out.
           collect_all_data fl net parse now encode None output_file ld enrich w = (Inr ms1, w1)
           \<and> length ms1 = length ms
           \<and> disk w1 output_file = Some (concat (encode out))
           \<and> models out = ms1
           \<and> metadata out ''hf_enriched_count'' = Some (VInt (int (hf_enriched fl ms1)))"
    if s: "scrape_leaderboard fl ld = Inr ms" and ne: "ms \<noteq> []"
  proof -
    obtain ms1 c1 where e: "(if enrich then enrich_with_huggingface fl net parse (hf_scraper w) ms
                      else (ms, hf_scraper w)) = (ms1, c1)"
      by force
    have ok: "list_all (\<lambda>m. len_benchmarks m \<noteq> None) ms"
      using leaderboard_records [OF s] collector_record_len
      by (auto simp add: list_all_iff simp del: len_benchmarks.simps)
    have l: "length ms1 = length ms" and ok1: "list_all (\<lambda>m. len_benchmarks m \<noteq> None) ms1"
      using e ok enrich_len [of fl net parse "hf_scraper w" ms ms1 c1]
      by (auto split: if_splits)
    from total_benchmarks_ok [OF ok1] obtain tb where tb: "total_benchmarks ms1 = Some tb" ..
    define out where "out = \<lparr>models = ms1, total_count = length ms1, last_updated = now,
        metadata = [''primary_source'' \<mapsto> VStr (u ''llm-stats.com''),
                    ''secondary_source'' \<mapsto> VStr (u ''HuggingFace''),
                    ''hf_enriched_count'' \<mapsto> VInt (int (hf_enriched fl ms1)),
                    ''total_benchmarks'' \<mapsto> VInt (int tb),
                    ''open_source_only'' \<mapsto> VBool True]\<rparr>"
    have c: "collect_all_data fl net parse now encode None output_file ld enrich w
        = (Inr ms1, \<lparr>hf_scraper = c1, disk = (disk w)(output_file \<mapsto> concat (encode out))\<rparr>)"
      using s ne e tb
      by (simp add: collect_all_data_def llmstats_save_data_def llmstats_output_data_def
            write_snapshot_def run_save_ops out_def)
    have "length ms1 = length ms
        \<and> disk \<lparr>hf_scraper = c1, disk = (disk w)(output_file \<mapsto> concat (encode out))\<rparr> output_file
            = Some (concat (encode out))
        \<and> models out = ms1
        \<and> metadata out ''hf_enriched_count'' = Some (VInt (int (hf_enriched fl ms1)))"
      using l by (simp add: out_def)
    with c show ?thesis by blast
  qed
  moreover have "collect_all_data fl net parse now encode fault output_file ld enrich w = (Inr [], w)"
    if "scrape_leaderboard fl ld = Inr []"
    using that by (simp add: collect_all_data_def)
  ultimately show ?thesis by simp
qed

lemma glm_row_record: "extract_model_from_row (\<lambda>q. q) (Some glm_row) = Some glm_record"
  by (simp add: extract_model_from_row_def glm_row_def glm_record_def clean_cell_def Let_def
      price_at_def parse_benchmarks_from_cells_def extract_score_def score_re_def py_float_def
      digits_value_def benchmark_name_def benchmark_names_def llmstats_categorize_benchmark_def
      extract_model_id_def org_mapping_def str_simps)

lemma json_item_record: "normalize_json_model json_item = Inr json_record"
  by (simp add: normalize_json_model_def json_item_def json_record_def jget_def Let_def
      extract_model_id_def str_simps)

lemma json_page_records: "scrape_leaderboard (\<lambda>q. q) (Rendered json_page) = Inr [json_record]"
proof -
  have "wanted_item json_item = Inr True" by (simp add: json_item_def u_def)
  then show ?thesis
    by (simp add: extract_models_def fallback_models_def json_page_def json_item_record)
qed

theorem collector_open_source_witness:
  "extract_model_from_row (\<lambda>q. q) (Some glm_row) = Some glm_record
   \<and> glm_record ''is_open_source'' = Some (VBool True)
   \<and> normalize_json_model json_item = Inr json_record
   \<and> json_record ''is_open_source'' = Some (VBool True)
   \<and> scrape_leaderboard (\<lambda>q. q) (Rendered json_page) = Inr [json_record]
   \<and> list_all (\<lambda>m. m ''is_open_source'' = Some (VBool True)) [json_record]"
proof -
  note t = collector_open_source [where fl = "\<lambda>q. q" and row = "Some glm_row" and d = glm_record
      and item = json_item and d' = json_record and ld = "Rendered json_page"
      and ms = "[json_record]"]
  have a: "glm_record ''is_open_source'' = Some (VBool True)"
    using t [THEN conjunct1, THEN mp, OF glm_row_record] .
  have b: "json_record ''is_open_source'' = Some (VBool True)"
    using t [THEN conjunct2, THEN conjunct1, THEN mp, OF json_item_record] .
  have c: "list_all (\<lambda>m. m ''is_open_source'' = Some (VBool True)) [json_record]"
    using t [THEN conjunct2, THEN conjunct2, THEN mp, OF json_page_records] .
  from a b c glm_row_record json_item_record json_page_records show ?thesis by blast
qed

text \<open>
  C5 as stated fails: after a render timeout the run produces no snapshot.
\<close>

theorem empty_collection_counterexample:
  "collect_all_data (\<lambda>q. q) (always (Got (ok_response []))) (\<lambda>html mid. Some Map.empty)
       (u ''2026-01-01T00:00:00'') (\<lambda>out. [u ''{}'']) None (u ''models.json'') Render_timeout True
       \<lparr>hf_scraper = empty_client, disk = Map.empty\<rparr>
     = (Inr [], \<lparr>hf_scraper = empty_client, disk = Map.empty\<rparr>)
   \<and> disk (snd (collect_all_data (\<lambda>q. q) (always (Got (ok_response []))) (\<lambda>html mid. Some Map.empty)
       (u ''2026-01-01T00:00:00'') (\<lambda>out. [u ''{}'']) None (u ''models.json'') Render_timeout True
       \<lparr>hf_scraper = empty_client, disk = Map.empty\<rparr>)) (u ''models.json'') = None"
  by (simp add: collect_all_data_def)

theorem empty_collection_ends_run_witness:
  "scrape_leaderboard (\<lambda>q. q) (Rendered json_page) = Inr [json_record] \<and> [json_record] \<noteq> []
   \<and> (\<exists>ms1 w1 (out :: rat snapshot).
        collect_all_data (\<lambda>q. q) (always (Got not_found)) (\<lambda>html mid. Some Map.empty) []
            (\<lambda>out. [u ''{}'']) None (u ''models.json'') (Rendered json_page) True
            \<lparr>hf_scraper = empty_client, disk = Map.empty\<rparr> = (Inr ms1, w1)
        \<and> length ms1 = length [json_record]
        \<and> disk w1 (u ''models.json'') = Some (concat ((\<lambda>out. [u ''{}'']) out))
        \<and> models out = ms1
        \<and> metadata out ''hf_enriched_count'' = Some (VInt (int (hf_enriched (\<lambda>q. q) ms1))))"
proof -
  have ne: "[json_record] \<noteq> []" by simp
  note t = empty_collection_ends_run [where fl = "\<lambda>q. q" and ld = "Rendered json_page"
      and ms = "[json_record]" and net = "always (Got not_found)"
      and parse = "\<lambda>html mid. Some Map.empty" and now = "[]" and encode = "\<lambda>out. [u ''{}'']"
      and output_file = "u ''models.json''" and enrich = True
      and w = "\<lparr>hf_scraper = empty_client, disk = Map.empty\<rparr>"]
  show ?thesis
  proof (intro conjI)
    show "scrape_leaderboard (\<lambda>q. q) (Rendered json_page) = Inr [json_record]"
      by (rule json_page_records)
    show "[json_record] \<noteq> []" by (rule ne)
  qed (rule t [THEN conjunct2, THEN conjunct2, THEN mp, OF conjI, OF json_page_records ne])
qed

section \<open>The markup extractor on the scenario document\<close>

lemma scenario_text: "get_text scenario_soup = u ''MMLU85.5%license: apache-2.0''"
  by (simp add: scenario_soup_def u_def)

lemma scenario_no_link: "find_link p scenario_soup = None"
  by (simp add: find_link_def scenario_soup_def)

lemma scenario_no_meta: "find_meta k scenario_soup = None"
  by (simp add: find_meta_def scenario_soup_def)

lemma scenario_license_match:
  "re_search license_re (u ''MMLU85.5%license: apache-2.0'')
     = Some (map (\<lambda>c. [c]) (u ''license:'') @ [u '' '', u ''apache-2.0''])"
  by (simp add: license_re_def str_simps)

lemma scenario_license: "extract_license scenario_soup = Some (u ''apache-2.0'')"
  by (simp add: extract_license_def scenario_no_link scenario_no_meta scenario_text
        scenario_license_match)
     (simp add: str_simps)

lemma scenario_open: "is_open_source_license (u ''apache-2.0'')"
  by (simp add: is_open_source_license_def str_simps)

lemma scenario_category: "hf_categorize_benchmark (u ''MMLU'') = u ''reasoning''"
  by (simp add: hf_categorize_benchmark_def Let_def str_simps)

lemma scenario_table:
  "table_benchmarks fl scenario_soup = [Benchmark (u ''MMLU'') (fl (171 / 2)) (u ''reasoning'')]"
proof -
  have n: "re_search number_re (u ''85.5%'') = Some [u ''85'', u ''.'', u ''5'']"
    by (simp add: number_re_def str_simps)
  have f: "py_float (u ''85'' @ u ''.'' @ u ''5'') = Some (171 / 2)"
    by (simp add: py_float_def digits_value_def Let_def str_simps)
  have s: "strip (u ''MMLU'') = u ''MMLU''" "strip (u ''85.5%'') = u ''85.5%''"
    by (simp_all add: str_simps)
  show ?thesis
    by (simp add: table_benchmarks_def find_all_def scenario_soup_def row_benchmark_def
          Let_def s n f scenario_category)
qed

lemma scenario_text_benchmarks:
  "extract_benchmarks_from_text fl (u ''MMLU85.5%license: apache-2.0'') = []"
  by (simp add: extract_benchmarks_from_text_def name_patterns_def score_tail_def
        dash_or_space_def str_simps)

lemma scenario_benchmarks:
  "extract_benchmarks fl scenario_soup = [Benchmark (u ''MMLU'') (fl (171 / 2)) (u ''reasoning'')]"
  by (simp add: extract_benchmarks_def found_benchmarks_def scenario_table scenario_text
        scenario_text_benchmarks)


lemma with_key_other: "k \<noteq> k' \<Longrightarrow> with_key k' x d k = d k"
  by (simp add: with_key_def split: option.splits)

lemma extract_metadata_other: "k \<noteq> ''context_window'' \<Longrightarrow> extract_metadata soup k = None"
  by (simp add: extract_metadata_def split: option.splits)

lemma extract_stats_other:
  "k \<noteq> ''downloads'' \<Longrightarrow> k \<noteq> ''likes'' \<Longrightarrow> extract_stats soup k = None"
  by (simp add: extract_stats_def Let_def split: option.splits)

lemma parse_model_page_benchmarks:
  "parse_model_page fl soup html model_id ''benchmarks'' = Some (VList (extract_benchmarks fl soup))"
  by (simp add: parse_model_page_def Let_def with_key_other map_add_def extract_stats_other)

lemma parse_model_page_open_source:
  "parse_model_page fl soup html model_id ''is_open_source'' =
     Some (VBool (case extract_license soup of
                    None \<Rightarrow> False
                  | Some l \<Rightarrow> l \<noteq> [] \<and> is_open_source_license l))"
  by (simp add: parse_model_page_def Let_def with_key_other map_add_def extract_stats_other
        extract_metadata_other split: option.splits)

text \<open>
  C1, as amended. For the document with the table row \<^verbatim>\<open>MMLU\<close>, \<^verbatim>\<open>85.5%\<close> and the text
  \<^verbatim>\<open>license: apache-2.0\<close>, whatever the raw markup, the record of \<^verbatim>\<open>acme/foo-7b\<close> has
  \<^verbatim>\<open>is_open_source\<close> true and exactly one benchmark, named \<^verbatim>\<open>MMLU\<close>, with score 85.5 and
  category \<^verbatim>\<open>reasoning\<close>.
\<close>

theorem model_card_scenario:
  "parse_model_page fl scenario_soup html (u ''acme/foo-7b'') ''is_open_source'' = Some (VBool True)
   \<and> parse_model_page fl scenario_soup html (u ''acme/foo-7b'') ''benchmarks''
       = Some (VList [Benchmark (u ''MMLU'') (fl (171 / 2)) (u ''reasoning'')])"
  by (simp add: parse_model_page_benchmarks parse_model_page_open_source scenario_license
        scenario_open scenario_benchmarks) (simp add: u_def)

text \<open>
  C1 as stated fails: the category of the entry is not \<^verbatim>\<open>knowledge\<close>.
\<close>

theorem model_card_category_counterexample:
  "parse_model_page (\<lambda>q. q) scenario_soup [] (u ''acme/foo-7b'') ''benchmarks''
     \<noteq> Some (VList [Benchmark (u ''MMLU'') (171 / 2) (u ''knowledge'')])"
  by (simp add: parse_model_page_benchmarks scenario_benchmarks) (simp add: u_def)

section \<open>Benchmark lists have no duplicates\<close>

lemma set_unique_ids: "set (unique_ids xs) = set xs"
  by (induction xs) auto

lemma distinct_unique_ids: "distinct (unique_ids xs)"
  by (induction xs) (auto simp: distinct_removeAll)

lemma unique_benchmarks_keys:
  "map key (unique_benchmarks seen bs) = filter (\<lambda>k. k \<notin> seen) (unique_ids (map key bs))"
proof (induction bs arbitrary: seen)
  case Nil
  then show ?case by simp
next
  case (Cons b bs)
  have r: "removeAll (key b) xs = filter (\<lambda>k. k \<noteq> key b) xs" for xs :: "(ustr \<times> 'a) list"
    by (induction xs) auto
  show ?case
  proof (cases "key b \<in> seen")
    case True
    then have "filter (\<lambda>k. k \<notin> seen) (filter (\<lambda>k. k \<noteq> key b) xs) = filter (\<lambda>k. k \<notin> seen) xs"
      for xs by (induction xs) auto
    with True Cons show ?thesis by (simp add: key_def [symmetric] r)
  next
    case False
    have "filter (\<lambda>k. k \<notin> insert (key b) seen) xs
        = filter (\<lambda>k. k \<notin> seen) (filter (\<lambda>k. k \<noteq> key b) xs)" for xs
      by (induction xs) auto
    with False Cons show ?thesis by (simp add: key_def [symmetric] r)
  qed
qed

lemma unique_benchmarks_subseq: "subseq (unique_benchmarks seen bs) bs"
  by (induction bs arbitrary: seen) auto

lemma extract_benchmarks_keys:
  "map key (extract_benchmarks fl soup) = unique_ids (map key (found_benchmarks fl soup))"
  by (simp add: extract_benchmarks_def unique_benchmarks_keys)

declare str_nat.simps [simp del]

lemma str_nat_nonempty: "str_nat n \<noteq> []"
  by (subst str_nat.simps) simp

lemma str_nat_inj: "str_nat m = str_nat n \<Longrightarrow> m = n"
proof (induction m arbitrary: n rule: str_nat.induct)
  case (1 m)
  show ?case
  proof (cases "m < 10")
    case True
    then have m: "str_nat m = [48 + m]" by (subst str_nat.simps) simp
    show ?thesis
    proof (cases "n < 10")
      case True
      then have "str_nat n = [48 + n]" by (subst str_nat.simps) simp
      with m "1.prems" show ?thesis by simp
    next
      case False
      then have "str_nat n = str_nat (n div 10) @ [48 + n mod 10]"
        by (subst str_nat.simps) simp
      with m "1.prems" str_nat_nonempty [of "n div 10"] show ?thesis by simp
    qed
  next
    case False
    then have m: "str_nat m = str_nat (m div 10) @ [48 + m mod 10]"
      by (subst str_nat.simps) simp
    show ?thesis
    proof (cases "n < 10")
      case True
      then have "str_nat n = [48 + n]" by (subst str_nat.simps) simp
      with m "1.prems" str_nat_nonempty [of "m div 10"] show ?thesis by simp
    next
      case n: False
      then have "str_nat n = str_nat (n div 10) @ [48 + n mod 10]"
        by (subst str_nat.simps) simp
      with m "1.prems" have e: "str_nat (m div 10) = str_nat (n div 10)" and r: "m mod 10 = n mod 10"
        by simp_all
      from "1.IH" [OF False e] have "m div 10 = n div 10" .
      with r show ?thesis by (metis div_mult_mod_eq)
    qed
  qed
qed

lemma distinct_benchmark_names: "distinct benchmark_names"
  by (simp add: benchmark_names_def u_def)

lemma benchmark_names_no_prefix:
  "list_all (\<lambda>n. \<not> prefix (u ''Benchmark_'') n) benchmark_names"
  by (simp add: benchmark_names_def u_def)

lemma benchmark_name_inj: "benchmark_name i = benchmark_name j \<Longrightarrow> i = j"
proof -
  assume e: "benchmark_name i = benchmark_name j"
  have mixed: False
    if "a < length benchmark_names" "\<not> b < length benchmark_names"
      "benchmark_name a = benchmark_name b" for a b
  proof -
    from that(1) have "benchmark_names ! a \<in> set benchmark_names" by simp
    with benchmark_names_no_prefix have "\<not> prefix (u ''Benchmark_'') (benchmark_names ! a)"
      by (simp add: list_all_iff)
    with that show False by (simp add: benchmark_name_def)
  qed
  show ?thesis
  proof (cases "i < length benchmark_names")
    case True
    show ?thesis
    proof (cases "j < length benchmark_names")
      case j: True
      with True e distinct_benchmark_names show ?thesis
        by (simp add: benchmark_name_def nth_eq_iff_index_eq)
    next
      case False
      with True e mixed [of i j] show ?thesis by simp
    qed
  next
    case False
    show ?thesis
    proof (cases "j < length benchmark_names")
      case True
      with False e mixed [of j i] show ?thesis by simp
    next
      case j: False
      with False e have "str_nat (i + 1) = str_nat (j + 1)" by (simp add: benchmark_name_def)
      then show ?thesis using str_nat_inj by fastforce
    qed
  qed
qed

lemma parse_benchmarks_names:
  "map name (parse_benchmarks_from fl i cells)
     = map benchmark_name [i ..< i + length (parse_benchmarks_from fl i cells)]"
proof (induction cells arbitrary: i)
  case Nil
  then show ?case by simp
next
  case (Cons cell cells)
  show ?case
  proof (cases "contains (u ''%'') cell")
    case True
    show ?thesis
    proof (cases "extract_score fl cell")
      case None
      with True Cons show ?thesis by simp
    next
      case (Some sc)
      define n where "n = length (parse_benchmarks_from fl (Suc i) cells)"
      have u: "[i ..< i + Suc n] = i # [Suc i ..< Suc i + n]"
        by (subst upt_conv_Cons) simp_all
      from Cons [of "Suc i"] have "map name (parse_benchmarks_from fl (Suc i) cells)
          = map benchmark_name [Suc i ..< Suc i + n]"
        by (simp add: n_def)
      with True Some u show ?thesis by (simp add: n_def del: upt_Suc)
    qed
  next
    case False
    with Cons show ?thesis by simp
  qed
qed

lemma parse_benchmarks_scores:
  "map score (parse_benchmarks_from fl i cells)
     = List.map_filter (extract_score fl) (filter (contains (u ''%'')) cells)"
  by (induction cells arbitrary: i) (auto simp: map_filter_simps split: option.splits)

lemma distinct_keys_of_names: "distinct (map name bs) \<Longrightarrow> distinct (map key bs)"
proof -
  assume "distinct (map name bs)"
  then have "distinct (map fst (map key bs))" by (simp add: key_def comp_def)
  then show ?thesis by (simp only: distinct_map [of fst])
qed

lemma parse_benchmarks_distinct: "distinct (map key (parse_benchmarks_from fl i cells))"
proof -
  have "inj_on benchmark_name A" for A by (rule inj_onI) (rule benchmark_name_inj)
  then have "distinct (map name (parse_benchmarks_from fl i cells))"
    by (simp add: parse_benchmarks_names distinct_map)
  then show ?thesis by (rule distinct_keys_of_names)
qed


lemma row_benchmarks:
  "extract_model_from_row fl row = Some d \<Longrightarrow>
     \<exists>cells. d ''benchmarks'' = Some (VList (parse_benchmarks_from_cells fl cells))"
  unfolding extract_model_from_row_def
  by (auto simp: Let_def split: option.splits if_splits sum.splits prod.splits)

lemma json_benchmarks:
  "normalize_json_model item = Inr d \<Longrightarrow> d ''benchmarks'' = Some (VList [])"
  unfolding normalize_json_model_def
  by (auto simp: Let_def split: jval.splits if_splits)

text \<open>
  C7. In the benchmark list of a record of the markup extractor no two entries have the
  same name and score, and the list is what the tables and then the text gave, each pair
  kept where it was first seen. In the benchmark list of a record of the rendered-table
  collector the names are the positional names, which differ from one another, so no two
  entries have the same name and score either, and the scores are those of the cells
  with a percent sign, in the order of the cells; a record of the JSON fallback has no
  benchmark.
\<close>

theorem benchmarks_unique:
  "distinct (map key (extract_benchmarks fl soup))
   \<and> map key (extract_benchmarks fl soup) = unique_ids (map key (found_benchmarks fl soup))
   \<and> subseq (extract_benchmarks fl soup) (found_benchmarks fl soup)
   \<and> parse_model_page fl soup html model_id ''benchmarks''
       = Some (VList (extract_benchmarks fl soup))
   \<and> distinct (map key (parse_benchmarks_from_cells fl cells))
   \<and> map name (parse_benchmarks_from_cells fl cells)
       = map benchmark_name [0 ..< length (parse_benchmarks_from_cells fl cells)]
   \<and> map score (parse_benchmarks_from_cells fl cells)
       = List.map_filter (extract_score fl) (filter (contains (u ''%'')) cells)
   \<and> (extract_model_from_row fl row = Some d \<longrightarrow>
        (\<exists>bs. d ''benchmarks'' = Some (VList bs) \<and> distinct (map key bs)))
   \<and> (normalize_json_model item = Inr d' \<longrightarrow> d' ''benchmarks'' = Some (VList []))"
proof -
  have 1: "distinct (map key (extract_benchmarks fl soup))"
    by (simp add: extract_benchmarks_keys distinct_unique_ids)
  have 3: "subseq (extract_benchmarks fl soup) (found_benchmarks fl soup)"
    by (simp add: extract_benchmarks_def unique_benchmarks_subseq)
  have 5: "distinct (map key (parse_benchmarks_from_cells fl cells))"
    by (simp add: parse_benchmarks_from_cells_def parse_benchmarks_distinct)
  have 6: "map name (parse_benchmarks_from_cells fl cells)
       = map benchmark_name [0 ..< length (parse_benchmarks_from_cells fl cells)]"
    using parse_benchmarks_names [of fl 0 cells] by (simp add: parse_benchmarks_from_cells_def)
  have 7: "map score (parse_benchmarks_from_cells fl cells)
       = List.map_filter (extract_score fl) (filter (contains (u ''%'')) cells)"
    by (simp add: parse_benchmarks_from_cells_def parse_benchmarks_scores)
  have 8: "\<exists>bs. d ''benchmarks'' = Some (VList bs) \<and> distinct (map key bs)"
    if "extract_model_from_row fl row = Some d"
  proof -
    from row_benchmarks [OF that] obtain cs where
      "d ''benchmarks'' = Some (VList (parse_benchmarks_from_cells fl cs))" ..
    then show ?thesis
      by (auto simp: parse_benchmarks_from_cells_def parse_benchmarks_distinct)
  qed
  from 1 3 5 6 7 8 show ?thesis
    by (simp add: extract_benchmarks_keys parse_model_page_benchmarks json_benchmarks)
qed

theorem benchmarks_unique_witness:
  "extract_model_from_row (\<lambda>q. q) (Some glm_row) = Some glm_record
   \<and> (\<exists>bs. glm_record ''benchmarks'' = Some (VList bs) \<and> distinct (map key bs))
   \<and> normalize_json_model json_item = Inr json_record
   \<and> json_record ''benchmarks'' = Some (VList [])"
proof -
  note t = benchmarks_unique [where fl = "\<lambda>q. q" and row = "Some glm_row" and d = glm_record
      and item = json_item and d' = json_record]
  have a: "\<exists>bs. glm_record ''benchmarks'' = Some (VList bs) \<and> distinct (map key bs)"
    using t [THEN conjunct2, THEN conjunct2, THEN conjunct2, THEN conjunct2, THEN conjunct2,
        THEN conjunct2, THEN conjunct2, THEN conjunct1, THEN mp, OF glm_row_record] .
  have b: "json_record ''benchmarks'' = Some (VList [])"
    using t [THEN conjunct2, THEN conjunct2, THEN conjunct2, THEN conjunct2, THEN conjunct2,
        THEN conjunct2, THEN conjunct2, THEN conjunct2, THEN mp, OF json_item_record] .
  show ?thesis
  proof (intro conjI)
    show "extract_model_from_row (\<lambda>q. q) (Some glm_row) = Some glm_record"
      by (rule glm_row_record)
    show "normalize_json_model json_item = Inr json_record" by (rule json_item_record)
  qed (rule a, rule b)
qed

end
